theory Spec2Isabelle
  imports Main "HOL-Library.Word"
begin

unbundle bit_operations_syntax

section \<open>The WALT cpufreq governor (kernel/sched/walt/cpufreq_walt.c)\<close>

text \<open>
  A shallow embedding of the frequency-selection core of the governor. The target is
  arm64: \<open>unsigned int\<close> and \<open>int\<close> are 32-bit words, \<open>unsigned long\<close>, \<open>u64\<close> and
  \<open>s64\<close> are 64-bit words; \<open>s64\<close> values are compared through \<open>sint\<close>. CPU numbers and
  object handles are natural numbers. Objects reached through pointers
  (\<open>struct waltgov_policy\<close>, \<open>struct waltgov_tunables\<close>, the per-CPU
  \<open>struct waltgov_cpu\<close> slots) live in explicit stores, so that a write through
  \<open>wg_cpu->wg_policy\<close> and a write through the caller's \<open>wg_policy\<close> meet in the same
  object when the pointers are equal. The stores are total; whether the \<open>wg_policy\<close>
  pointer of a per-CPU slot can be dereferenced is recorded beside them
  (\<open>wg_policy_valid\<close>), and the API function that reads a slot for a CPU number of the
  caller's choice ends in the fatal result \<open>OOPS\<close> when it cannot. The update path is
  entered only through the callbacks that \<open>waltgov_start\<close> installs after it has stored
  the pointers, and is modelled for such slots.

  Integer division by zero is 0 here, as it is for the arm64 \<open>udiv\<close> instruction.

  The build options \<open>CONFIG_OPLUS_FEATURE_FRAME_BOOST\<close> and \<open>CONFIG_OPLUS_FEATURE_OCH\<close>
  are parameters; \<open>get_next_freq\<close> is the variant compiled without
  \<open>CONFIG_OPLUS_FEATURE_SUGOV_TL\<close>, the one that has the adaptive band. Trace points
  and locks are left out.
\<close>

type_synonym u32 = "32 word"
type_synonym u64 = "64 word"

subsection \<open>Data model\<close>

text \<open>The fields of \<open>struct cpufreq_policy\<close> that the governor reads.\<close>

record cpufreq_policy =
  policy_cpu :: nat
  cpus :: "nat list"
  policy_min :: u32
  policy_max :: u32
  cur :: u32
  cpuinfo_max_freq :: u32
  fast_switch_enabled :: bool

text \<open>\<open>struct waltgov_tunables\<close> (without the target-load table of the
  \<open>CONFIG_OPLUS_FEATURE_SUGOV_TL\<close> build).\<close>

record waltgov_tunables =
  up_rate_limit_us :: u32
  down_rate_limit_us :: u32
  hispeed_load :: u32
  hispeed_freq :: u32
  rtg_boost_freq :: u32
  adaptive_low_freq :: u32
  adaptive_high_freq :: u32
  adaptive_low_freq_kernel :: u32
  adaptive_high_freq_kernel :: u32
  target_load_thresh :: u32
  target_load_shift :: u32
  pl :: bool
  boost :: u32

text \<open>\<open>struct waltgov_policy\<close>. \<open>tunables\<close> is a handle into the store of tunables;
  \<open>max_wp\<close> is the field \<open>max\<close> and \<open>flags_wp\<close> the field \<open>flags\<close> of the source
  (\<open>flags\<close> exists in \<open>CONFIG_OPLUS_FEATURE_FRAME_BOOST\<close> builds, \<open>newtask_flag\<close> in
  \<open>CONFIG_OPLUS_FEATURE_OCH\<close> builds).\<close>

record waltgov_policy =
  policy :: cpufreq_policy
  last_ws :: u64
  curr_cycles :: u64
  last_cyc_update_time :: u64
  avg_cap :: u64
  tunables :: nat
  hispeed_util :: u64
  rtg_boost_util :: u64
  max_wp :: u64
  last_freq_update_time :: u64
  min_rate_limit_ns :: u64
  up_rate_delay_ns :: u64
  down_rate_delay_ns :: u64
  next_freq :: u32
  cached_raw_freq :: u32
  driving_cpu :: nat
  limits_changed :: bool
  need_freq_update :: bool
  newtask_flag :: u32
  flags_wp :: u32

text \<open>\<open>struct walt_cpu_load\<close>, the signals the scheduler hands over for one CPU
  (\<open>pl_wl\<close> is its field \<open>pl\<close>).\<close>

record walt_cpu_load =
  nl :: u64
  pl_wl :: u64
  rtgb_active :: bool
  ws :: u64
  ed_active :: bool
  big_task_rotation :: bool

text \<open>\<open>struct waltgov_cpu\<close>; \<open>wg_policy\<close> is a handle into the store of domains,
  \<open>max_wc\<close> and \<open>flags_wc\<close> are the fields \<open>max\<close> and \<open>flags\<close>.\<close>

record waltgov_cpu =
  wg_policy :: nat
  cpu :: nat
  walt_load :: walt_cpu_load
  util :: u64
  max_wc :: u64
  flags_wc :: u32
  reasons :: u32

text \<open>Calls that leave the governor: the platform driver and the deferred-work
  facility. They are recorded in the order they happen.\<close>

datatype hw_call =
  Resolve_freq u32
  | Fast_switch u32
  | Irq_work_queue
  | Health_newtask_state u32

text \<open>The stores. \<open>wg_policy_valid c\<close> says that the slot of CPU \<open>c\<close> exists and holds a
  \<open>wg_policy\<close> pointer that can be dereferenced. The slots are static per-CPU data,
  all zero (so \<open>wg_policy\<close> is NULL) until \<open>waltgov_start\<close> fills in the slots of the
  CPUs of the policy it starts; a CPU that is not possible has no per-CPU area to read
  a slot from.\<close>

record walt_state =
  per_cpu :: "nat \<Rightarrow> waltgov_cpu"
  policy_heap :: "nat \<Rightarrow> waltgov_policy"
  tunables_heap :: "nat \<Rightarrow> waltgov_tunables"
  hw_calls :: "hw_call list"
  wg_policy_valid :: "nat \<Rightarrow> bool"

text \<open>
  What the file uses but does not define: the reason and event-flag constants of
  \<open>walt.h\<close> and \<open>frame_group.h\<close>, the scheduler's globals, the build options, and the
  collaborators (driver frequency resolution, RT utilization, cluster test, frame-boost
  utilization hook, the possible-CPU mask). They are parameters of the model.
\<close>

record walt_env =
  sched_ravg_window :: u32
  sysctl_ed_boost_pct :: u32
  sysctl_sched_conservative_pl :: u32
  CPUFREQ_REASON_EARLY_DET :: u32
  CPUFREQ_REASON_RTG_BOOST :: u32
  CPUFREQ_REASON_HISPEED :: u32
  CPUFREQ_REASON_NWD :: u32
  CPUFREQ_REASON_PL :: u32
  CPUFREQ_REASON_BTR :: u32
  CPUFREQ_REASON_ADAPTIVE_LOW :: u32
  CPUFREQ_REASON_ADAPTIVE_HIGH :: u32
  WALT_CPUFREQ_IC_MIGRATION :: u32
  WALT_CPUFREQ_CONTINUE :: u32
  WALT_CPUFREQ_PL :: u32
  SCHED_CPUFREQ_DEF_FRAMEBOOST :: u32
  OPLUS_FEATURE_FRAME_BOOST :: bool
  OPLUS_FEATURE_OCH :: bool
  cpu_possible :: "nat \<Rightarrow> bool"
  cpufreq_driver_resolve_freq :: "cpufreq_policy \<Rightarrow> u32 \<Rightarrow> u32"
  cpu_util_rt :: "nat \<Rightarrow> u64"
  is_min_cluster_cpu :: "nat \<Rightarrow> bool"
  fbg_freq_policy_util :: "u32 \<Rightarrow> nat list \<Rightarrow> u64 \<Rightarrow> u64"

text \<open>The ways a call ends without returning: a \<open>BUG_ON\<close> that fires, and the
  dereference of a pointer that is not valid.\<close>

datatype fatal = BUG | OOPS

subsection \<open>Rate limiting\<close>

definition waltgov_should_update_freq ::
  "walt_env \<Rightarrow> waltgov_policy \<Rightarrow> u64 \<Rightarrow> bool \<times> waltgov_policy" where
  "waltgov_should_update_freq env wg time =
     (if limits_changed wg then
        (True, wg\<lparr>limits_changed := False, need_freq_update := True\<rparr>)
      else if OPLUS_FEATURE_FRAME_BOOST env \<and>
              flags_wp wg AND SCHED_CPUFREQ_DEF_FRAMEBOOST env \<noteq> 0 then (True, wg)
      else
        (let delta_ns = time - last_freq_update_time wg
         in (sint (min_rate_limit_ns wg) \<le> sint delta_ns, wg)))"

definition waltgov_up_down_rate_limit ::
  "walt_env \<Rightarrow> waltgov_policy \<Rightarrow> u64 \<Rightarrow> u32 \<Rightarrow> bool" where
  "waltgov_up_down_rate_limit env wg time nf =
     (let delta_ns = time - last_freq_update_time wg
      in if OPLUS_FEATURE_FRAME_BOOST env \<and>
            flags_wp wg AND SCHED_CPUFREQ_DEF_FRAMEBOOST env \<noteq> 0 then False
         else if next_freq wg < nf \<and> sint delta_ns < sint (up_rate_delay_ns wg) then True
         else if nf < next_freq wg \<and> sint delta_ns < sint (down_rate_delay_ns wg) then True
         else False)"

definition waltgov_update_next_freq ::
  "walt_env \<Rightarrow> waltgov_policy \<Rightarrow> u64 \<Rightarrow> u32 \<Rightarrow> u32 \<Rightarrow> bool \<times> waltgov_policy" where
  "waltgov_update_next_freq env wg time nf raw_freq =
     (if next_freq wg = nf then (False, wg)
      else if waltgov_up_down_rate_limit env wg time nf then
        (False, wg\<lparr>cached_raw_freq := 0\<rparr>)
      else
        (True, wg\<lparr>cached_raw_freq := raw_freq, next_freq := nf,
                   last_freq_update_time := time\<rparr>))"

subsection \<open>Cycle and capacity tracking\<close>

text \<open>The macro \<open>mult_frac(x, numer, denom)\<close> at type \<open>unsigned long\<close>.\<close>

definition mult_frac :: "u64 \<Rightarrow> u64 \<Rightarrow> u64 \<Rightarrow> u64" where
  "mult_frac x numer denom =
     (let quot = x div denom; rem = x mod denom
      in quot * numer + (rem * numer) div denom)"

definition freq_to_util :: "waltgov_policy \<Rightarrow> u32 \<Rightarrow> u64" where
  "freq_to_util wg freq =
     mult_frac (max_wp wg) (ucast freq) (ucast (cpuinfo_max_freq (policy wg)))"

text \<open>\<open>NSEC_PER_SEC / KHZ\<close>.\<close>

definition NSEC_PER_KHZ :: nat where
  "NSEC_PER_KHZ = 1000000"

definition waltgov_track_cycles ::
  "walt_env \<Rightarrow> waltgov_policy \<Rightarrow> u32 \<Rightarrow> u64 \<Rightarrow> waltgov_policy" where
  "waltgov_track_cycles env wg prev_freq upto0 =
     (let next_ws = last_ws wg + ucast (sched_ravg_window env);
          upto = min upto0 next_ws;
          delta_ns = upto - last_cyc_update_time wg;
          delta_ns = delta_ns * ucast prev_freq;
          cycles = delta_ns div of_nat NSEC_PER_KHZ
      in wg\<lparr>curr_cycles := curr_cycles wg + cycles, last_cyc_update_time := upto\<rparr>)"

text \<open>The local \<open>avg_freq\<close> of \<open>waltgov_calc_avg_cap\<close> together with the domain as the
  two branches leave it, before \<open>avg_cap\<close> is written.\<close>

definition calc_avg_freq ::
  "walt_env \<Rightarrow> waltgov_policy \<Rightarrow> u64 \<Rightarrow> u32 \<Rightarrow> u32 \<times> waltgov_policy" where
  "calc_avg_freq env wg curr_ws prev_freq =
     (if last_ws wg + ucast (sched_ravg_window env) < curr_ws then
        (prev_freq, wg\<lparr>last_cyc_update_time := curr_ws\<rparr>)
      else
        (let wg1 = waltgov_track_cycles env wg prev_freq curr_ws;
             avg_freq = (ucast (curr_cycles wg1) :: u32)
         in (avg_freq div (sched_ravg_window env div of_nat NSEC_PER_KHZ), wg1)))"

definition waltgov_calc_avg_cap ::
  "walt_env \<Rightarrow> waltgov_policy \<Rightarrow> u64 \<Rightarrow> u32 \<Rightarrow> fatal + waltgov_policy" where
  "waltgov_calc_avg_cap env wg curr_ws prev_freq =
     (if curr_ws < last_ws wg then Inl BUG
      else if curr_ws \<le> last_ws wg then Inr wg
      else
        (let (avg_freq, wg1) = calc_avg_freq env wg curr_ws prev_freq
         in Inr (wg1\<lparr>avg_cap := freq_to_util wg1 avg_freq, curr_cycles := 0,
                      last_ws := curr_ws\<rparr>)))"

subsection \<open>Utilization to frequency\<close>

definition tunables_of :: "walt_state \<Rightarrow> waltgov_policy \<Rightarrow> waltgov_tunables" where
  "tunables_of st wg = tunables_heap st (tunables wg)"

text \<open>\<open>walt_map_util_freq(util, wg_policy, cap, cpu)\<close>. The count of \<open>fmax >> shift\<close> is
  taken modulo 64, as the arm64 shift instruction takes it (C leaves a count of 64 or
  more undefined).\<close>

definition walt_map_util_freq ::
  "walt_env \<Rightarrow> walt_state \<Rightarrow> u64 \<Rightarrow> waltgov_policy \<Rightarrow> u64 \<Rightarrow> nat \<Rightarrow> u64" where
  "walt_map_util_freq env st ut wg cap c =
     (let fmax = (ucast (cpuinfo_max_freq (policy wg)) :: u64);
          shift = target_load_shift (tunables_of st wg);
          thresh = (ucast (target_load_thresh (tunables_of st wg)) :: u64)
      in if thresh \<le> ut \<and> cpu_util_rt env c < drop_bit 2 cap then
           max ((fmax + drop_bit (unat shift mod 64) fmax) * ut)
               ((fmax + drop_bit 2 fmax) * thresh)
             div cap
         else (fmax + drop_bit 2 fmax) * ut div cap)"

definition get_adaptive_low_freq :: "walt_state \<Rightarrow> waltgov_policy \<Rightarrow> u32" where
  "get_adaptive_low_freq st wg =
     max (adaptive_low_freq (tunables_of st wg)) (adaptive_low_freq_kernel (tunables_of st wg))"

definition get_adaptive_high_freq :: "walt_state \<Rightarrow> waltgov_policy \<Rightarrow> u32" where
  "get_adaptive_high_freq st wg =
     max (adaptive_high_freq (tunables_of st wg)) (adaptive_high_freq_kernel (tunables_of st wg))"

definition set_reasons :: "walt_state \<Rightarrow> nat \<Rightarrow> u32 \<Rightarrow> walt_state" where
  "set_reasons st j r = st\<lparr>per_cpu := (per_cpu st)(j := (per_cpu st j)\<lparr>reasons := r\<rparr>)\<rparr>"

definition set_policy :: "walt_state \<Rightarrow> nat \<Rightarrow> waltgov_policy \<Rightarrow> walt_state" where
  "set_policy st h wg = st\<lparr>policy_heap := (policy_heap st)(h := wg)\<rparr>"

text \<open>
  \<open>get_next_freq\<close> in the build without \<open>CONFIG_OPLUS_FEATURE_SUGOV_TL\<close>, in two parts.
  \<open>get_next_freq_select\<close> is the first part: the raw frequency of the driving CPU and
  the adaptive band; it yields the local \<open>freq\<close> and may write the driving CPU's
  \<open>reasons\<close>. \<open>get_next_freq_commit\<close> is the rest: the cached-frequency test, the
  driver's resolution and the rate-limited commit. \<open>h\<close> is the handle of \<open>wg_policy\<close>.
\<close>

definition get_next_freq_select ::
  "walt_env \<Rightarrow> walt_state \<Rightarrow> nat \<Rightarrow> u64 \<Rightarrow> u64 \<Rightarrow> u32 \<times> walt_state" where
  "get_next_freq_select env st h ut mx =
     (let wg = policy_heap st h;
          d = driving_cpu wg;
          raw_freq = (ucast (walt_map_util_freq env st ut wg mx (cpu (per_cpu st d))) :: u32)
      in if adaptive_high_freq (tunables_of st wg) \<noteq> 0 then
           if raw_freq < get_adaptive_low_freq st wg then
             (get_adaptive_low_freq st wg, set_reasons st d (CPUFREQ_REASON_ADAPTIVE_LOW env))
           else if raw_freq \<le> get_adaptive_high_freq st wg then
             (get_adaptive_high_freq st wg, set_reasons st d (CPUFREQ_REASON_ADAPTIVE_HIGH env))
           else (raw_freq, st)
         else (raw_freq, st))"

definition get_next_freq_commit ::
  "walt_env \<Rightarrow> walt_state \<Rightarrow> nat \<Rightarrow> u32 \<Rightarrow> u64 \<Rightarrow> u32 \<times> walt_state" where
  "get_next_freq_commit env st h freq time =
     (let wg = policy_heap st h
      in if cached_raw_freq wg \<noteq> 0 \<and> freq = cached_raw_freq wg \<and> \<not> need_freq_update wg then
           (0, st)
         else
           (let wg1 = wg\<lparr>need_freq_update := False\<rparr>;
                final_freq = cpufreq_driver_resolve_freq env (policy wg1) freq;
                calls = hw_calls st @ [Resolve_freq freq] @
                  (if OPLUS_FEATURE_OCH env then [Health_newtask_state (newtask_flag wg1)]
                   else []);
                (ok, wg2) = waltgov_update_next_freq env wg1 time final_freq freq
            in (if ok then final_freq else 0, (set_policy st h wg2)\<lparr>hw_calls := calls\<rparr>)))"

definition get_next_freq ::
  "walt_env \<Rightarrow> walt_state \<Rightarrow> nat \<Rightarrow> u64 \<Rightarrow> u64 \<Rightarrow> u64 \<Rightarrow> u32 \<times> walt_state" where
  "get_next_freq env st h ut mx time =
     (let (freq, st1) = get_next_freq_select env st h ut mx
      in get_next_freq_commit env st1 h freq time)"

subsection \<open>Override rules\<close>

definition NL_RATIO :: u64 where
  "NL_RATIO = 75"

definition TARGET_LOAD :: u64 where
  "TARGET_LOAD = 80"

text \<open>\<open>max_and_reason(cur_util, boost_util, wg_cpu, reason)\<close>; \<open>j\<close> is the per-CPU slot
  \<open>wg_cpu\<close> points to, and the running maximum \<open>*cur_util\<close> is returned.\<close>

definition max_and_reason ::
  "walt_state \<Rightarrow> u64 \<Rightarrow> u64 \<Rightarrow> nat \<Rightarrow> u32 \<Rightarrow> u64 \<times> walt_state" where
  "max_and_reason st cur_util boost_util j reason =
     (if boost_util \<noteq> 0 \<and> cur_util \<le> boost_util then
        (let st1 = set_reasons st j reason;
             h = wg_policy (per_cpu st1 j)
         in (boost_util,
             set_policy st1 h ((policy_heap st1 h)\<lparr>driving_cpu := cpu (per_cpu st1 j)\<rparr>)))
      else (cur_util, st))"

definition set_newtask_flag :: "walt_env \<Rightarrow> walt_state \<Rightarrow> nat \<Rightarrow> u32 \<Rightarrow> walt_state" where
  "set_newtask_flag env st h v =
     (if OPLUS_FEATURE_OCH env then set_policy st h ((policy_heap st h)\<lparr>newtask_flag := v\<rparr>)
      else st)"

text \<open>\<open>waltgov_walt_adjust(wg_cpu, cpu_util, nl, util, max)\<close>: \<open>ut\<close> is \<open>*util\<close> on entry,
  the result carries \<open>*util\<close> on exit; \<open>*max\<close> is only read.\<close>

definition waltgov_walt_adjust ::
  "walt_env \<Rightarrow> walt_state \<Rightarrow> nat \<Rightarrow> u64 \<Rightarrow> u64 \<Rightarrow> u64 \<Rightarrow> u64 \<Rightarrow> u64 \<times> walt_state" where
  "waltgov_walt_adjust env st j cpu_util0 nl0 ut mx =
     (let h = wg_policy (per_cpu st j);
          is_migration = (flags_wc (per_cpu st j) AND WALT_CPUFREQ_IC_MIGRATION env \<noteq> 0);
          is_rtg_boost = rtgb_active (walt_load (per_cpu st j));
          btr = big_task_rotation (walt_load (per_cpu st j));
          employ_ed_boost =
            (ed_active (walt_load (per_cpu st j)) \<and> sysctl_ed_boost_pct env \<noteq> 0);
          pl0 = pl_wl (walt_load (per_cpu st j));
          cpu_util =
            (if employ_ed_boost
             then mult_frac cpu_util0 (ucast (100 + sysctl_ed_boost_pct env)) 100
             else cpu_util0);
          (u1, st1) =
            (if employ_ed_boost
             then max_and_reason st ut cpu_util j (CPUFREQ_REASON_EARLY_DET env)
             else (ut, st));
          (u2, st2) =
            (if is_rtg_boost
             then max_and_reason st1 u1 (rtg_boost_util (policy_heap st1 h)) j
                    (CPUFREQ_REASON_RTG_BOOST env)
             else (u1, st1));
          is_hiload =
            (mult_frac (avg_cap (policy_heap st2 h))
               (ucast (hispeed_load (tunables_of st2 (policy_heap st2 h)))) 100 \<le> cpu_util);
          (u3, st3) =
            (if is_hiload \<and> \<not> is_migration
             then max_and_reason st2 u2 (hispeed_util (policy_heap st2 h)) j
                    (CPUFREQ_REASON_HISPEED env)
             else (u2, st2));
          (u4, st4) =
            (if is_hiload \<and> mult_frac cpu_util NL_RATIO 100 \<le> nl0
             then (let (u, s) = max_and_reason st3 u3 mx j (CPUFREQ_REASON_NWD env)
                   in (u, set_newtask_flag env s h 1))
             else (u3, set_newtask_flag env st3 h 0));
          (u5, st5) =
            (if pl (tunables_of st4 (policy_heap st4 h))
             then max_and_reason st4 u4
                    (if sysctl_sched_conservative_pl env \<noteq> 0
                     then mult_frac pl0 TARGET_LOAD 100 else pl0)
                    j (CPUFREQ_REASON_PL env)
             else (u4, st4));
          st6 =
            (if employ_ed_boost
             then set_reasons st5 j (reasons (per_cpu st5 j) OR CPUFREQ_REASON_EARLY_DET env)
             else st5)
      in if btr then max_and_reason st6 u5 mx j (CPUFREQ_REASON_BTR env) else (u5, st6))"

definition target_util :: "walt_env \<Rightarrow> walt_state \<Rightarrow> waltgov_policy \<Rightarrow> u32 \<Rightarrow> u64" where
  "target_util env st wg freq =
     (let u = freq_to_util wg freq
      in if is_min_cluster_cpu env (policy_cpu (policy wg)) \<and>
            ucast (target_load_thresh (tunables_of st wg)) \<le> u
         then mult_frac u 94 100
         else mult_frac u TARGET_LOAD 100)"

subsection \<open>Aggregation over the domain\<close>

text \<open>One round of the \<open>for_each_cpu\<close> loop of \<open>waltgov_next_freq_shared\<close>, for CPU \<open>j\<close>;
  \<open>h\<close> is the handle of the caller's \<open>wg_policy\<close>, \<open>b\<close> the local \<open>boost\<close>, and the
  locals \<open>util\<close> and \<open>max\<close> are threaded through. \<open>next_freq_shared_pick\<close> is the round
  up to the call of \<open>waltgov_walt_adjust\<close>: it yields \<open>j_util\<close>, \<open>j_nl\<close> and the locals
  \<open>util\<close>, \<open>max\<close> after the comparison.\<close>

definition next_freq_shared_pick ::
  "nat \<Rightarrow> u32 \<Rightarrow> nat \<Rightarrow> u64 \<times> u64 \<times> walt_state \<Rightarrow> u64 \<times> u64 \<times> u64 \<times> u64 \<times> walt_state" where
  "next_freq_shared_pick h b j acc =
     (let (ut, mx, st) = acc;
          j_util0 = util (per_cpu st j);
          j_nl0 = nl (walt_load (per_cpu st j));
          j_max = max_wc (per_cpu st j);
          j_util = (if b \<noteq> 0 then mult_frac j_util0 (scast (b + 100)) 100 else j_util0);
          j_nl = (if b \<noteq> 0 then mult_frac j_nl0 (scast (b + 100)) 100 else j_nl0)
      in if j_max * ut \<le> j_util * mx
         then (j_util, j_nl, j_util, j_max,
               set_policy st h ((policy_heap st h)\<lparr>driving_cpu := j\<rparr>))
         else (j_util, j_nl, ut, mx, st))"

definition next_freq_shared_step ::
  "walt_env \<Rightarrow> nat \<Rightarrow> u32 \<Rightarrow> nat \<Rightarrow> u64 \<times> u64 \<times> walt_state \<Rightarrow> u64 \<times> u64 \<times> walt_state" where
  "next_freq_shared_step env h b j acc =
     (let (j_util, j_nl, ut1, mx1, st1) = next_freq_shared_pick h b j acc;
          (ut2, st2) = waltgov_walt_adjust env st1 j j_util j_nl ut1 mx1
      in (ut2, mx1, st2))"

fun next_freq_shared_loop ::
  "walt_env \<Rightarrow> nat \<Rightarrow> u32 \<Rightarrow> nat list \<Rightarrow> u64 \<times> u64 \<times> walt_state \<Rightarrow> u64 \<times> u64 \<times> walt_state"
  where
  "next_freq_shared_loop env h b [] acc = acc"
| "next_freq_shared_loop env h b (j # js) acc =
     next_freq_shared_loop env h b js (next_freq_shared_step env h b j acc)"

text \<open>The aggregated \<open>util\<close> and \<open>max\<close> that \<open>waltgov_next_freq_shared\<close> hands to
  \<open>get_next_freq\<close>, with the state after the loop.\<close>

definition next_freq_shared_aggregate ::
  "walt_env \<Rightarrow> walt_state \<Rightarrow> nat \<Rightarrow> u64 \<times> u64 \<times> walt_state" where
  "next_freq_shared_aggregate env st c =
     (let h = wg_policy (per_cpu st c);
          wg = policy_heap st h;
          b = boost (tunables_of st wg);
          (ut, mx, st1) = next_freq_shared_loop env h b (cpus (policy wg)) (0, 1, st);
          ut1 = (if OPLUS_FEATURE_FRAME_BOOST env
                 then fbg_freq_policy_util env (flags_wp (policy_heap st1 h))
                        (cpus (policy (policy_heap st1 h))) ut
                 else ut)
      in (ut1, mx, st1))"

definition waltgov_next_freq_shared ::
  "walt_env \<Rightarrow> walt_state \<Rightarrow> nat \<Rightarrow> u64 \<Rightarrow> u32 \<times> walt_state" where
  "waltgov_next_freq_shared env st c time =
     (let h = wg_policy (per_cpu st c);
          (ut, mx, st1) = next_freq_shared_aggregate env st c
      in get_next_freq env st1 h ut mx time)"

subsection \<open>The per-CPU callback\<close>

text \<open>What the scheduler yields when \<open>waltgov_get_util\<close> asks: the CPU's capacity
  (\<open>arch_scale_cpu_capacity\<close>), the load and reasons \<open>cpu_util_freq_walt\<close> writes, and
  the utilization after \<open>uclamp_rq_util_with\<close>.\<close>

record sched_sample =
  arch_scale_cpu_capacity :: u64
  cpu_util_freq_walt_load :: walt_cpu_load
  cpu_util_freq_walt_reasons :: u32
  uclamp_rq_util :: u64

definition waltgov_get_util :: "walt_state \<Rightarrow> nat \<Rightarrow> sched_sample \<Rightarrow> u64 \<times> walt_state" where
  "waltgov_get_util st c smp =
     (uclamp_rq_util smp,
      st\<lparr>per_cpu := (per_cpu st)(c := (per_cpu st c)
           \<lparr>max_wc := arch_scale_cpu_capacity smp,
            reasons := cpu_util_freq_walt_reasons smp,
            walt_load := cpu_util_freq_walt_load smp\<rparr>)\<rparr>)"

definition waltgov_fast_switch ::
  "walt_env \<Rightarrow> walt_state \<Rightarrow> nat \<Rightarrow> u64 \<Rightarrow> u32 \<Rightarrow> walt_state" where
  "waltgov_fast_switch env st h time nf =
     (let wg = policy_heap st h;
          st1 = set_policy st h (waltgov_track_cycles env wg (cur (policy wg)) time)
      in st1\<lparr>hw_calls := hw_calls st1 @ [Fast_switch nf]\<rparr>)"

definition waltgov_deferred_update :: "walt_state \<Rightarrow> nat \<Rightarrow> u64 \<Rightarrow> u32 \<Rightarrow> walt_state" where
  "waltgov_deferred_update st h time nf = st\<lparr>hw_calls := hw_calls st @ [Irq_work_queue]\<rparr>"

text \<open>The end of \<open>waltgov_update_freq\<close>: nothing for \<open>next_f = 0\<close> (\<open>goto out\<close>),
  otherwise the fast switch or the deferred update.\<close>

definition waltgov_update_freq_dispatch ::
  "walt_env \<Rightarrow> walt_state \<Rightarrow> nat \<Rightarrow> u64 \<Rightarrow> u32 \<Rightarrow> walt_state" where
  "waltgov_update_freq_dispatch env st h time next_f =
     (if next_f = 0 then st
      else if fast_switch_enabled (policy (policy_heap st h))
      then waltgov_fast_switch env st h time next_f
      else waltgov_deferred_update st h time next_f)"

text \<open>\<open>waltgov_update_freq(cb, time, flags)\<close> for the callback of CPU \<open>c\<close>, in parts.
  \<open>waltgov_update_freq_sample\<close> records the sample and the event flags in the CPU's slot
  and yields the domain with \<open>flags\<close> stored (in \<open>CONFIG_OPLUS_FEATURE_FRAME_BOOST\<close>
  builds) and with \<open>max\<close>, \<open>hispeed_util\<close> and \<open>rtg_boost_util\<close> re-derived when the
  capacity changed. \<open>waltgov_update_freq_prepare\<close> continues up to the gate: it
  recomputes the average capacity and evaluates
  \<open>waltgov_should_update_freq(wg_policy, time) && !(flags & WALT_CPUFREQ_CONTINUE)\<close>.
  The spinlock is not modelled: one invocation runs at a time.\<close>

definition waltgov_update_freq_sample ::
  "walt_env \<Rightarrow> walt_state \<Rightarrow> nat \<Rightarrow> u32 \<Rightarrow> sched_sample \<Rightarrow> walt_state \<times> waltgov_policy"
  where
  "waltgov_update_freq_sample env st c flags smp =
     (let h = wg_policy (per_cpu st c);
          (u, st1) = waltgov_get_util st c smp;
          st2 = st1\<lparr>per_cpu := (per_cpu st1)(c := (per_cpu st1 c)
                  \<lparr>util := u, flags_wc := flags\<rparr>)\<rparr>;
          wg2 = (if OPLUS_FEATURE_FRAME_BOOST env
                 then (policy_heap st2 h)\<lparr>flags_wp := flags\<rparr> else policy_heap st2 h);
          wg3 = (if max_wp wg2 \<noteq> max_wc (per_cpu st2 c) then
                   (let w = wg2\<lparr>max_wp := max_wc (per_cpu st2 c)\<rparr>;
                        w1 = w\<lparr>hispeed_util :=
                               target_util env st2 w (hispeed_freq (tunables_of st2 w))\<rparr>
                    in w1\<lparr>rtg_boost_util :=
                            target_util env st2 w1 (rtg_boost_freq (tunables_of st2 w1))\<rparr>)
                 else wg2)
      in (st2, wg3))"

definition waltgov_update_freq_prepare ::
  "walt_env \<Rightarrow> walt_state \<Rightarrow> nat \<Rightarrow> u64 \<Rightarrow> u32 \<Rightarrow> sched_sample \<Rightarrow> fatal + bool \<times> walt_state"
  where
  "waltgov_update_freq_prepare env st c time flags smp =
     (let h = wg_policy (per_cpu st c);
          (st2, wg3) = waltgov_update_freq_sample env st c flags smp
      in case waltgov_calc_avg_cap env wg3 (ws (walt_load (per_cpu st2 c)))
                (cur (policy wg3)) of
           Inl e \<Rightarrow> Inl e
         | Inr wg4 \<Rightarrow>
             (let (should, wg5) = waltgov_should_update_freq env wg4 time
              in Inr (should \<and> flags AND WALT_CPUFREQ_CONTINUE env = 0,
                      set_policy st2 h wg5)))"

definition waltgov_update_freq ::
  "walt_env \<Rightarrow> walt_state \<Rightarrow> nat \<Rightarrow> u64 \<Rightarrow> u32 \<Rightarrow> sched_sample \<Rightarrow> fatal + walt_state" where
  "waltgov_update_freq env st c time flags smp =
     (let h = wg_policy (per_cpu st c)
      in if \<not> pl (tunables_of st (policy_heap st h)) \<and> flags AND WALT_CPUFREQ_PL env \<noteq> 0
         then Inr st
         else
           (case waltgov_update_freq_prepare env st c time flags smp of
              Inl e \<Rightarrow> Inl e
            | Inr (go, st5) \<Rightarrow>
                if go then
                  (let (next_f, st6) = waltgov_next_freq_shared env st5 c time
                   in Inr (waltgov_update_freq_dispatch env st6 h time next_f))
                else Inr st5))"

subsection \<open>The adaptive-frequency API\<close>

definition EFAULT :: int where
  "EFAULT = 14"

definition EINVAL :: int where
  "EINVAL = 22"

text \<open>\<open>cpufreq_walt_set_adaptive_freq(cpu, adaptive_low_freq, adaptive_high_freq)\<close>. The
  initialisers of its locals load \<open>wg_cpu->wg_policy\<close> and \<open>wg_policy->policy\<close> before
  the first statement, the test of \<open>cpu_possible(cpu)\<close>.\<close>

definition cpufreq_walt_set_adaptive_freq ::
  "walt_env \<Rightarrow> walt_state \<Rightarrow> nat \<Rightarrow> u32 \<Rightarrow> u32 \<Rightarrow> fatal + int \<times> walt_state" where
  "cpufreq_walt_set_adaptive_freq env st c low high =
     (if \<not> wg_policy_valid st c then Inl OOPS
      else
        (let wg = policy_heap st (wg_policy (per_cpu st c));
             pol = policy wg
         in if \<not> cpu_possible env c then Inr (- EFAULT, st)
            else if policy_min pol \<le> low \<and> high \<le> policy_max pol then
              Inr (0, st\<lparr>tunables_heap := (tunables_heap st)(tunables wg :=
                      (tunables_heap st (tunables wg))
                        \<lparr>adaptive_low_freq_kernel := low, adaptive_high_freq_kernel := high\<rparr>)\<rparr>)
            else Inr (- EINVAL, st)))"

text \<open>The loop of \<open>waltgov_start\<close> over \<open>policy->cpus\<close> that fills in the per-CPU slots:
  \<open>memset\<close> to zero, then \<open>cpu\<close> and \<open>wg_policy\<close>. \<open>h\<close> is the handle of the domain
  being started.\<close>

definition zeroed_cpu :: waltgov_cpu where
  "zeroed_cpu =
     \<lparr>wg_policy = 0, cpu = 0,
      walt_load = \<lparr>nl = 0, pl_wl = 0, rtgb_active = False, ws = 0, ed_active = False,
                    big_task_rotation = False\<rparr>,
      util = 0, max_wc = 0, flags_wc = 0, reasons = 0\<rparr>"

definition waltgov_start_slot :: "nat \<Rightarrow> nat \<Rightarrow> walt_state \<Rightarrow> walt_state" where
  "waltgov_start_slot h c st =
     st\<lparr>per_cpu := (per_cpu st)(c := zeroed_cpu\<lparr>cpu := c, wg_policy := h\<rparr>),
        wg_policy_valid := (wg_policy_valid st)(c := True)\<rparr>"

definition waltgov_start_slots :: "walt_state \<Rightarrow> nat \<Rightarrow> walt_state" where
  "waltgov_start_slots st h =
     fold (waltgov_start_slot h) (cpus (policy (policy_heap st h))) st"

subsection \<open>Repeated window recomputation\<close>

text \<open>Successive calls of \<open>waltgov_calc_avg_cap\<close> on one domain, each with its window
  start and previous frequency; a fatal call ends the run.\<close>

fun calc_avg_cap_calls ::
  "walt_env \<Rightarrow> waltgov_policy \<Rightarrow> (u64 \<times> u32) list \<Rightarrow> fatal + waltgov_policy" where
  "calc_avg_cap_calls env wg [] = Inr wg"
| "calc_avg_cap_calls env wg ((curr_ws, prev_freq) # rest) =
     (case waltgov_calc_avg_cap env wg curr_ws prev_freq of
        Inl e \<Rightarrow> Inl e
      | Inr wg' \<Rightarrow> calc_avg_cap_calls env wg' rest)"

subsection \<open>The override chain as a list of rules\<close>

text \<open>
  The design notes describe the chain of \<open>waltgov_walt_adjust\<close> as an ordered list of
  (predicate, candidate value, reason) rules folded left to right with a
  replace-if-greater-or-equal step. \<open>rule_step\<close> is that step on the running maximum,
  the reasons field and the driving CPU; \<open>c\<close> is the CPU the rule is applied for.
\<close>

type_synonym rule = "bool \<times> u64 \<times> u32"

definition rule_step :: "nat \<Rightarrow> rule \<Rightarrow> u64 \<times> u32 \<times> nat \<Rightarrow> u64 \<times> u32 \<times> nat" where
  "rule_step c rl acc =
     (case rl of (applies, boost_util, reason) \<Rightarrow>
        case acc of (u, rs, d) \<Rightarrow>
          if applies \<and> boost_util \<noteq> 0 \<and> u \<le> boost_util then (boost_util, reason, c)
          else (u, rs, d))"

text \<open>The first five rules in their order, with the conditions and candidates the
  source computes for CPU slot \<open>j\<close>.\<close>

definition override_rules ::
  "walt_env \<Rightarrow> walt_state \<Rightarrow> nat \<Rightarrow> u64 \<Rightarrow> u64 \<Rightarrow> u64 \<Rightarrow> rule list" where
  "override_rules env st j cpu_util0 nl0 mx =
     (let wc = per_cpu st j;
          wg = policy_heap st (wg_policy wc);
          tn = tunables_of st wg;
          employ_ed_boost = (ed_active (walt_load wc) \<and> sysctl_ed_boost_pct env \<noteq> 0);
          cpu_util = (if employ_ed_boost
                      then mult_frac cpu_util0 (ucast (100 + sysctl_ed_boost_pct env)) 100
                      else cpu_util0);
          is_hiload = (mult_frac (avg_cap wg) (ucast (hispeed_load tn)) 100 \<le> cpu_util)
      in [(employ_ed_boost, cpu_util, CPUFREQ_REASON_EARLY_DET env),
          (rtgb_active (walt_load wc), rtg_boost_util wg, CPUFREQ_REASON_RTG_BOOST env),
          (is_hiload \<and> flags_wc wc AND WALT_CPUFREQ_IC_MIGRATION env = 0, hispeed_util wg,
             CPUFREQ_REASON_HISPEED env),
          (is_hiload \<and> mult_frac cpu_util NL_RATIO 100 \<le> nl0, mx, CPUFREQ_REASON_NWD env),
          (pl tn,
             if sysctl_sched_conservative_pl env \<noteq> 0
             then mult_frac (pl_wl (walt_load wc)) TARGET_LOAD 100 else pl_wl (walt_load wc),
             CPUFREQ_REASON_PL env)])"

text \<open>The condition of the new-task rule, which also drives \<open>newtask_flag\<close>.\<close>

definition newtask_rule :: "walt_env \<Rightarrow> walt_state \<Rightarrow> nat \<Rightarrow> u64 \<Rightarrow> u64 \<Rightarrow> bool" where
  "newtask_rule env st j cpu_util0 nl0 =
     (let wc = per_cpu st j;
          wg = policy_heap st (wg_policy wc);
          employ_ed_boost = (ed_active (walt_load wc) \<and> sysctl_ed_boost_pct env \<noteq> 0);
          cpu_util = (if employ_ed_boost
                      then mult_frac cpu_util0 (ucast (100 + sysctl_ed_boost_pct env)) 100
                      else cpu_util0)
      in mult_frac (avg_cap wg) (ucast (hispeed_load (tunables_of st wg))) 100 \<le> cpu_util \<and>
         mult_frac cpu_util NL_RATIO 100 \<le> nl0)"

text \<open>The outcome of the whole chain for CPU slot \<open>j\<close>: the five rules, then the
  early-detection bit, then big-task rotation.\<close>

definition override_outcome ::
  "walt_env \<Rightarrow> walt_state \<Rightarrow> nat \<Rightarrow> u64 \<Rightarrow> u64 \<Rightarrow> u64 \<Rightarrow> u64 \<Rightarrow> u64 \<times> u32 \<times> nat" where
  "override_outcome env st j cpu_util0 nl0 ut mx =
     (let wc = per_cpu st j;
          employ_ed_boost = (ed_active (walt_load wc) \<and> sysctl_ed_boost_pct env \<noteq> 0);
          X5 = fold (rule_step (cpu wc)) (override_rules env st j cpu_util0 nl0 mx)
                 (ut, reasons wc, driving_cpu (policy_heap st (wg_policy wc)));
          X6 = (fst X5,
                if employ_ed_boost then fst (snd X5) OR CPUFREQ_REASON_EARLY_DET env
                else fst (snd X5),
                snd (snd X5))
      in rule_step (cpu wc) (big_task_rotation (walt_load wc), mx, CPUFREQ_REASON_BTR env) X6)"

text \<open>A state that differs from \<open>st\<close> in what the chain may write for CPU slot \<open>j\<close>:
  the slot's \<open>reasons\<close>, and \<open>driving_cpu\<close> and \<open>newtask_flag\<close> of the slot's domain.\<close>

definition with_overrides :: "walt_state \<Rightarrow> nat \<Rightarrow> u32 \<Rightarrow> nat \<Rightarrow> u32 \<Rightarrow> walt_state" where
  "with_overrides st j rs d nf =
     st\<lparr>per_cpu := (per_cpu st)(j := (per_cpu st j)\<lparr>reasons := rs\<rparr>),
        policy_heap := (policy_heap st)(wg_policy (per_cpu st j) :=
          (policy_heap st (wg_policy (per_cpu st j)))\<lparr>newtask_flag := nf, driving_cpu := d\<rparr>)\<rparr>"

subsection \<open>What the aggregation may write\<close>

text \<open>The aggregation loop writes only \<open>reasons\<close> of per-CPU slots and \<open>driving_cpu\<close>
  and \<open>newtask_flag\<close> of domains. \<open>bookkeeping_only st st'\<close> says that \<open>st'\<close> differs
  from \<open>st\<close> in nothing else.\<close>

definition policy_core :: "waltgov_policy \<Rightarrow> waltgov_policy" where
  "policy_core wg = wg\<lparr>driving_cpu := 0, newtask_flag := 0\<rparr>"

definition cpu_core :: "waltgov_cpu \<Rightarrow> waltgov_cpu" where
  "cpu_core wc = wc\<lparr>reasons := 0\<rparr>"

definition bookkeeping_only :: "walt_state \<Rightarrow> walt_state \<Rightarrow> bool" where
  "bookkeeping_only st st' \<longleftrightarrow>
     tunables_heap st' = tunables_heap st \<and> hw_calls st' = hw_calls st \<and>
     (\<forall>h. policy_core (policy_heap st' h) = policy_core (policy_heap st h)) \<and>
     (\<forall>j. cpu_core (per_cpu st' j) = cpu_core (per_cpu st j))"

subsection \<open>Repeated selection on a stable signal\<close>

text \<open>Successive calls of \<open>get_next_freq\<close> at the given times with the same aggregated
  utilization and capacity; the result lists what the calls return.\<close>

fun get_next_freq_calls ::
  "walt_env \<Rightarrow> walt_state \<Rightarrow> nat \<Rightarrow> u64 \<Rightarrow> u64 \<Rightarrow> u64 list \<Rightarrow> u32 list \<times> walt_state" where
  "get_next_freq_calls env st h ut mx [] = ([], st)"
| "get_next_freq_calls env st h ut mx (t # ts) =
     (let (f, st1) = get_next_freq env st h ut mx t;
          (fs, st2) = get_next_freq_calls env st1 h ut mx ts
      in (f # fs, st2))"

text \<open>A domain is settled for a signal when no update is forced and the frequency
  the signal resolves to is the committed one.\<close>

definition settled :: "walt_env \<Rightarrow> walt_state \<Rightarrow> nat \<Rightarrow> u64 \<Rightarrow> u64 \<Rightarrow> bool" where
  "settled env st h ut mx \<longleftrightarrow>
     \<not> need_freq_update (policy_heap st h) \<and>
     cpufreq_driver_resolve_freq env (policy (policy_heap st h))
       (fst (get_next_freq_select env st h ut mx)) = next_freq (policy_heap st h)"

text \<open>The fields of a domain that a commit writes and the cached-frequency test reads.\<close>

definition commit_fields :: "waltgov_policy \<Rightarrow> u32 \<times> u64 \<times> u32 \<times> bool" where
  "commit_fields wg =
     (next_freq wg, last_freq_update_time wg, cached_raw_freq wg, need_freq_update wg)"

text \<open>Further selections after a commit. Each has its own surroundings: the
  environment, the whole state it starts in, the aggregated utilization and capacity,
  and the time. \<open>same_selections h R wg cs\<close> says that each selection of \<open>cs\<close> finds the
  commit fields of domain \<open>h\<close> as the selection before it left them (\<open>wg\<close> for the
  first), that it computes the band-adjusted raw frequency \<open>R\<close>, and, when \<open>R\<close> is 0, the
  value that is never cached, that the driver resolves it to the committed frequency as
  before. Everything else may differ from one selection to the next.\<close>

type_synonym selection = "walt_env \<times> walt_state \<times> u64 \<times> u64 \<times> u64"

fun same_selections :: "nat \<Rightarrow> u32 \<Rightarrow> waltgov_policy \<Rightarrow> selection list \<Rightarrow> bool" where
  "same_selections h R wg [] = True"
| "same_selections h R wg ((env, st, ut, mx, t) # cs) =
     (commit_fields (policy_heap st h) = commit_fields wg \<and>
      fst (get_next_freq_select env st h ut mx) = R \<and>
      (R = 0 \<longrightarrow> cpufreq_driver_resolve_freq env (policy (policy_heap st h)) 0 = next_freq wg) \<and>
      same_selections h R (policy_heap (snd (get_next_freq env st h ut mx t)) h) cs)"

subsection \<open>Rate-limited change of the committed frequency\<close>

text \<open>\<open>rate_limited_change time wg wg'\<close>: going from domain \<open>wg\<close> to \<open>wg'\<close> at \<open>time\<close>,
  \<open>next_freq\<close> is raised only if the time since the last commit, as the signed 64-bit
  difference the code computes, is at least \<open>up_rate_delay_ns\<close>, and lowered only if it
  is at least \<open>down_rate_delay_ns\<close>.\<close>

definition rate_limited_change :: "u64 \<Rightarrow> waltgov_policy \<Rightarrow> waltgov_policy \<Rightarrow> bool" where
  "rate_limited_change time wg wg' \<longleftrightarrow>
     (next_freq wg < next_freq wg' \<longrightarrow>
        sint (up_rate_delay_ns wg) \<le> sint (time - last_freq_update_time wg)) \<and>
     (next_freq wg' < next_freq wg \<longrightarrow>
        sint (down_rate_delay_ns wg) \<le> sint (time - last_freq_update_time wg))"

definition rate_fields :: "waltgov_policy \<Rightarrow> u32 \<times> u64 \<times> u64 \<times> u64" where
  "rate_fields wg =
     (next_freq wg, last_freq_update_time wg, up_rate_delay_ns wg, down_rate_delay_ns wg)"

subsection \<open>Sample values\<close>

text \<open>A two-CPU domain with a 4 ms window, used where a statement is evaluated at a
  concrete input. The constants absent from the file get distinct bits; the driver
  resolves a frequency by clamping it into the policy limits.\<close>

definition sample_env :: walt_env where
  "sample_env =
     \<lparr>sched_ravg_window = 4000000,
      sysctl_ed_boost_pct = 0,
      sysctl_sched_conservative_pl = 0,
      CPUFREQ_REASON_EARLY_DET = 4,
      CPUFREQ_REASON_RTG_BOOST = 8,
      CPUFREQ_REASON_HISPEED = 16,
      CPUFREQ_REASON_NWD = 32,
      CPUFREQ_REASON_PL = 2,
      CPUFREQ_REASON_BTR = 1,
      CPUFREQ_REASON_ADAPTIVE_LOW = 1024,
      CPUFREQ_REASON_ADAPTIVE_HIGH = 2048,
      WALT_CPUFREQ_IC_MIGRATION = 4,
      WALT_CPUFREQ_CONTINUE = 2,
      WALT_CPUFREQ_PL = 8,
      SCHED_CPUFREQ_DEF_FRAMEBOOST = 64,
      OPLUS_FEATURE_FRAME_BOOST = False,
      OPLUS_FEATURE_OCH = False,
      cpu_possible = (\<lambda>c. c < 8),
      cpufreq_driver_resolve_freq = (\<lambda>pol f. max (policy_min pol) (min (policy_max pol) f)),
      cpu_util_rt = (\<lambda>c. 0),
      is_min_cluster_cpu = (\<lambda>c. c < 4),
      fbg_freq_policy_util = (\<lambda>fl cs u. u)\<rparr>"

definition sample_policy :: cpufreq_policy where
  "sample_policy =
     \<lparr>policy_cpu = 0, cpus = [0, 1], policy_min = 300000, policy_max = 2000000,
      cur = 1000000, cpuinfo_max_freq = 2000000, fast_switch_enabled = True\<rparr>"

definition sample_wg :: waltgov_policy where
  "sample_wg =
     \<lparr>policy = sample_policy, last_ws = 1000, curr_cycles = 0, last_cyc_update_time = 1000,
      avg_cap = 512, tunables = 0, hispeed_util = 600, rtg_boost_util = 400, max_wp = 1024,
      last_freq_update_time = 0, min_rate_limit_ns = 500000, up_rate_delay_ns = 500000,
      down_rate_delay_ns = 20000000, next_freq = 1000000, cached_raw_freq = 0,
      driving_cpu = 0, limits_changed = False, need_freq_update = False, newtask_flag = 0,
      flags_wp = 0\<rparr>"

definition sample_tunables :: waltgov_tunables where
  "sample_tunables =
     \<lparr>up_rate_limit_us = 500, down_rate_limit_us = 20000, hispeed_load = 90,
      hispeed_freq = 1200000, rtg_boost_freq = 1000000, adaptive_low_freq = 0,
      adaptive_high_freq = 0, adaptive_low_freq_kernel = 0, adaptive_high_freq_kernel = 0,
      target_load_thresh = 1024, target_load_shift = 4, pl = False, boost = 0\<rparr>"

definition sample_load :: walt_cpu_load where
  "sample_load =
     \<lparr>nl = 0, pl_wl = 0, rtgb_active = False, ws = 1000, ed_active = False,
      big_task_rotation = False\<rparr>"

definition sample_cpu :: "nat \<Rightarrow> waltgov_cpu" where
  "sample_cpu j =
     \<lparr>wg_policy = 0, cpu = j, walt_load = sample_load, util = 300, max_wc = 1024,
      flags_wc = 0, reasons = 0\<rparr>"

definition sample_state :: walt_state where
  "sample_state =
     \<lparr>per_cpu = sample_cpu, policy_heap = (\<lambda>h. sample_wg),
      tunables_heap = (\<lambda>t. sample_tunables), hw_calls = [],
      wg_policy_valid = (\<lambda>c. c < 2)\<rparr>"

subsection \<open>States for the concrete evaluations\<close>


text \<open>The sample domain with an adaptive band: the two user tunables and the two
  kernel-origin values.\<close>

definition band_state :: "u32 \<Rightarrow> u32 \<Rightarrow> u32 \<Rightarrow> u32 \<Rightarrow> walt_state" where
  "band_state user_low user_high kernel_low kernel_high =
     sample_state\<lparr>tunables_heap := (\<lambda>t. sample_tunables
       \<lparr>adaptive_low_freq := user_low, adaptive_high_freq := user_high,
        adaptive_low_freq_kernel := kernel_low, adaptive_high_freq_kernel := kernel_high\<rparr>)\<rparr>"

text \<open>The sample domain with a given \<open>cached_raw_freq\<close>.\<close>

definition cached_state :: "u32 \<Rightarrow> walt_state" where
  "cached_state f = sample_state\<lparr>policy_heap := (\<lambda>h. sample_wg\<lparr>cached_raw_freq := f\<rparr>)\<rparr>"

text \<open>The sample system before the governor is started on the domain (no slot holds a
  pointer yet), and after the slot loop of \<open>waltgov_start\<close> has run for it.\<close>

definition boot_state :: walt_state where
  "boot_state = sample_state\<lparr>wg_policy_valid := (\<lambda>c. False)\<rparr>"

definition started_state :: walt_state where
  "started_state = waltgov_start_slots boot_state 0"

text \<open>The sample domain after a commit for utilization 900 of capacity 1024, and the
  same with another utilization on CPU 1.\<close>

definition committed_state :: walt_state where
  "committed_state = snd (get_next_freq sample_env sample_state 0 900 1024 1000000)"

definition busy_state :: walt_state where
  "busy_state =
     committed_state\<lparr>per_cpu := (per_cpu committed_state)(1 := (sample_cpu 1)\<lparr>util := 700\<rparr>)\<rparr>"

text \<open>An environment in which CPU 1 carries real-time load, the sample domain with the
  target-load threshold at 300, and a domain whose driving CPU is \<open>d\<close>, as the
  aggregation loop leaves it when CPU \<open>d\<close> has the highest utilization.\<close>

definition rt_env :: walt_env where
  "rt_env = sample_env\<lparr>cpu_util_rt := (\<lambda>c. if c = 1 then 300 else 0)\<rparr>"

definition thresh_state :: walt_state where
  "thresh_state =
     sample_state\<lparr>tunables_heap := (\<lambda>t. sample_tunables\<lparr>target_load_thresh := 300\<rparr>)\<rparr>"

definition set_driving_cpu :: "walt_state \<Rightarrow> nat \<Rightarrow> nat \<Rightarrow> walt_state" where
  "set_driving_cpu st h d = set_policy st h ((policy_heap st h)\<lparr>driving_cpu := d\<rparr>)"

text \<open>A sample the scheduler hands over for CPU 0 (utilization 900 of capacity 1024, in
  the window the domain already recorded), and the sample domain after a change of the
  policy limits.\<close>

definition sample_smp :: sched_sample where
  "sample_smp =
     \<lparr>arch_scale_cpu_capacity = 1024, cpu_util_freq_walt_load = sample_load,
      cpu_util_freq_walt_reasons = 0, uclamp_rq_util = 900\<rparr>"

definition limits_state :: walt_state where
  "limits_state = sample_state\<lparr>policy_heap := (\<lambda>h. sample_wg\<lparr>limits_changed := True\<rparr>)\<rparr>"

section \<open>Properties\<close>

subsection \<open>Window recomputation: ordering\<close>

lemma calc_avg_cap_same: "waltgov_calc_avg_cap env wg (last_ws wg) f = Inr wg"
  by (simp add: waltgov_calc_avg_cap_def)

lemma calc_avg_cap_older:
  "curr_ws < last_ws wg \<Longrightarrow> waltgov_calc_avg_cap env wg curr_ws f = Inl BUG"
  by (simp add: waltgov_calc_avg_cap_def)

lemma calc_avg_cap_ok:
  "last_ws wg \<le> curr_ws \<Longrightarrow>
     \<exists>wg'. waltgov_calc_avg_cap env wg curr_ws f = Inr wg' \<and> last_ws wg' = curr_ws"
  by (auto simp: waltgov_calc_avg_cap_def split: prod.splits)

lemma calc_avg_cap_calls_ok:
  "sorted (last_ws wg # map fst calls) \<Longrightarrow> \<exists>wg'. calc_avg_cap_calls env wg calls = Inr wg'"
proof (induction calls arbitrary: wg)
  case Nil
  then show ?case by simp
next
  case (Cons c calls)
  obtain t f where c: "c = (t, f)" by (cases c)
  from Cons.prems c have le: "last_ws wg \<le> t" by simp
  from calc_avg_cap_ok [OF le] obtain wg' where
    1: "waltgov_calc_avg_cap env wg t f = Inr wg'" and 2: "last_ws wg' = t" by blast
  from Cons.prems c 2 have "sorted (last_ws wg' # map fst calls)" by simp
  from Cons.IH [OF this] show ?case using 1 c by simp
qed

text \<open>
  C9. \<open>waltgov_calc_avg_cap\<close> called with the window start it already recorded returns
  with the domain untouched; called with an older window start it hits \<open>BUG_ON\<close>; called
  with a window start that is not older it returns and records that window start. So a
  caller whose window starts never decrease, beginning at or after the recorded one,
  never reaches the fatal branch.
\<close>

theorem C9_calc_avg_cap_ordering:
  "(curr_ws = last_ws wg \<longrightarrow> waltgov_calc_avg_cap env wg curr_ws f = Inr wg) \<and>
   (curr_ws < last_ws wg \<longrightarrow> waltgov_calc_avg_cap env wg curr_ws f = Inl BUG) \<and>
   (last_ws wg \<le> curr_ws \<longrightarrow>
      (\<exists>wg'. waltgov_calc_avg_cap env wg curr_ws f = Inr wg' \<and> last_ws wg' = curr_ws)) \<and>
   (sorted (last_ws wg # map fst calls) \<longrightarrow>
      (\<exists>wg'. calc_avg_cap_calls env wg calls = Inr wg'))"
  using calc_avg_cap_same [of env wg f] calc_avg_cap_older [of curr_ws wg env f]
    calc_avg_cap_ok [of wg curr_ws env f] calc_avg_cap_calls_ok [of wg calls env]
  by auto

theorem C9_calc_avg_cap_ordering_witness:
  "waltgov_calc_avg_cap sample_env sample_wg 1000 1000000 = Inr sample_wg \<and>
   waltgov_calc_avg_cap sample_env sample_wg 999 1000000 = Inl BUG \<and>
   (\<exists>wg'. waltgov_calc_avg_cap sample_env sample_wg 4001000 1000000 = Inr wg' \<and>
          last_ws wg' = 4001000) \<and>
   (\<exists>wg'. calc_avg_cap_calls sample_env sample_wg
            [(1000, 1000000), (4001000, 1000000), (4001000, 1800000), (20000000, 1800000)]
          = Inr wg')"
proof -
  have l: "last_ws sample_wg = 1000" by (simp add: sample_wg_def)
  show ?thesis
    using C9_calc_avg_cap_ordering [of 1000 sample_wg sample_env 1000000
        "[(1000, 1000000), (4001000, 1000000), (4001000, 1800000), (20000000, 1800000)]"]
      C9_calc_avg_cap_ordering [of 999 sample_wg sample_env 1000000 "[]"]
      C9_calc_avg_cap_ordering [of 4001000 sample_wg sample_env 1000000 "[]"]
    by (simp add: l del: calc_avg_cap_calls.simps)
qed

subsection \<open>Window recomputation: the average frequency\<close>

lemma unat_of_nat_u32: "n < 2 ^ 32 \<Longrightarrow> unat (word_of_nat n :: u32) = n"
  by (simp add: unat_of_nat)

lemma ucast_of_nat_u64_u32: "(ucast (word_of_nat n :: u64) :: u32) = word_of_nat n"
proof -
  have "unat (ucast (word_of_nat n :: u64) :: u32) = unat (word_of_nat n :: u32)"
    by (simp add: unat_of_nat unsigned_ucast_eq unsigned_of_nat take_bit_eq_mod min_def mod_mod_cancel)
  then show ?thesis by (simp only: word_unat_eq_iff)
qed

lemma avg_freq_roundtrip:
  fixes F :: u32
  assumes k: "0 < k" and w: "k * 1000000 < 2 ^ 32" and kf: "k * unat F < 2 ^ 32"
  shows "(ucast (word_of_nat (k * unat F) :: u64) :: u32) div
           ((word_of_nat (k * 1000000) :: u32) div word_of_nat NSEC_PER_KHZ) = F"
proof -
  have a: "unat (word_of_nat (k * 1000000) :: u32) = k * 1000000"
    using w by (rule unat_of_nat_u32)
  have b: "unat (word_of_nat NSEC_PER_KHZ :: u32) = 1000000"
    by (simp add: NSEC_PER_KHZ_def)
  have e: "unat (word_of_nat (k * unat F) :: u32) = k * unat F"
    using kf by (rule unat_of_nat_u32)
  have "unat ((ucast (word_of_nat (k * unat F) :: u64) :: u32) div
           ((word_of_nat (k * 1000000) :: u32) div word_of_nat NSEC_PER_KHZ)) = k * unat F div k"
    by (simp only: unat_div a b ucast_of_nat_u64_u32 e) simp
  also have "\<dots> = unat F" using k by simp
  finally have "unat ((ucast (word_of_nat (k * unat F) :: u64) :: u32) div
           ((word_of_nat (k * 1000000) :: u32) div word_of_nat NSEC_PER_KHZ)) = unat F" .
  then show ?thesis by (simp only: word_unat_eq_iff)
qed

lemma track_cycles_keeps_scale [simp]:
  "max_wp (waltgov_track_cycles env wg f t) = max_wp wg"
  "policy (waltgov_track_cycles env wg f t) = policy wg"
  by (simp_all add: waltgov_track_cycles_def Let_def)

lemma freq_to_util_track_cycles [simp]:
  "freq_to_util (waltgov_track_cycles env wg f t) x = freq_to_util wg x"
  by (simp add: freq_to_util_def)

text \<open>
  C5 (as amended). Let the window be a whole number \<open>k\<close> of milliseconds and let one
  window end at \<open>curr_ws\<close>. If the cycles accumulated up to \<open>curr_ws\<close> at frequency \<open>F\<close>
  are \<open>k * F\<close> (frequency times window length, in the code's units) and \<open>k * F\<close> fits 32
  bits, then \<open>waltgov_calc_avg_cap\<close> computes the average frequency \<open>F\<close>, stores the
  capacity that \<open>F\<close> maps to, resets \<open>curr_cycles\<close> and advances \<open>last_ws\<close> to \<open>curr_ws\<close>.
\<close>

theorem C5_cycle_roundtrip:
  assumes win: "sched_ravg_window env = word_of_nat (k * 1000000)"
    and k: "0 < k" and w: "k * 1000000 < 2 ^ 32" and kf: "k * unat F < 2 ^ 32"
    and one: "curr_ws = last_ws wg + ucast (sched_ravg_window env)"
    and nowrap: "last_ws wg < curr_ws"
    and cyc: "curr_cycles (waltgov_track_cycles env wg F curr_ws) = word_of_nat (k * unat F)"
  shows "fst (calc_avg_freq env wg curr_ws F) = F \<and>
         (\<exists>wg'. waltgov_calc_avg_cap env wg curr_ws F = Inr wg' \<and>
                avg_cap wg' = freq_to_util wg F \<and> curr_cycles wg' = 0 \<and>
                last_ws wg' = curr_ws)"
proof -
  have nb: "\<not> last_ws wg + ucast (sched_ravg_window env) < curr_ws"
    using one by simp
  have avg: "calc_avg_freq env wg curr_ws F = (F, waltgov_track_cycles env wg F curr_ws)"
    using nb avg_freq_roundtrip [OF k w kf]
    by (simp add: calc_avg_freq_def Let_def cyc win)
  have "\<not> curr_ws < last_ws wg" "\<not> curr_ws \<le> last_ws wg"
    using nowrap by auto
  then show ?thesis
    by (simp add: waltgov_calc_avg_cap_def avg)
qed

theorem C5_cycle_roundtrip_witness:
  "fst (calc_avg_freq sample_env sample_wg 4001000 1800000) = 1800000 \<and>
   (\<exists>wg'. waltgov_calc_avg_cap sample_env sample_wg 4001000 1800000 = Inr wg' \<and>
          avg_cap wg' = freq_to_util sample_wg 1800000 \<and> curr_cycles wg' = 0 \<and>
          last_ws wg' = 4001000)"
proof -
  have win: "sched_ravg_window sample_env = word_of_nat (4 * 1000000)"
    by (simp add: sample_env_def)
  have one: "(4001000 :: u64) = last_ws sample_wg + ucast (sched_ravg_window sample_env)"
    by (simp add: sample_env_def sample_wg_def)
  have nowrap: "last_ws sample_wg < 4001000"
    by (simp add: sample_wg_def)
  have kf: "4 * unat (1800000 :: u32) < 2 ^ 32" by simp
  have cyc: "curr_cycles (waltgov_track_cycles sample_env sample_wg 1800000 4001000) =
               word_of_nat (4 * unat (1800000 :: u32))"
    by (simp add: waltgov_track_cycles_def sample_env_def sample_wg_def NSEC_PER_KHZ_def)
  show ?thesis
    using C5_cycle_roundtrip [OF win _ _ kf one nowrap cyc] by simp
qed

text \<open>
  C5 as stated fails for a window that is not a whole number of milliseconds: with a
  window of 19999998 ns and 1000000 kHz throughout, the accumulated cycles are exactly
  frequency times window, yet the average frequency comes out as 1052631 kHz and the
  capacity as 538 instead of 512, because the cycles are divided by the truncated
  millisecond count 19. It also fails when the cycle count does not fit the 32-bit
  \<open>avg_freq\<close>: with a window of 4 ms and a frequency of \<open>2 ^ 30\<close> kHz the accumulated
  cycles are \<open>2 ^ 32\<close> and the average frequency comes out as 0.
\<close>

theorem C5_counterexample:
  "curr_cycles (waltgov_track_cycles (sample_env\<lparr>sched_ravg_window := 19999998\<rparr>)
          (sample_wg\<lparr>last_ws := 0, last_cyc_update_time := 0, curr_cycles := 0\<rparr>)
          1000000 19999998) = 19999998 \<and>
   fst (calc_avg_freq (sample_env\<lparr>sched_ravg_window := 19999998\<rparr>)
          (sample_wg\<lparr>last_ws := 0, last_cyc_update_time := 0, curr_cycles := 0\<rparr>)
          19999998 1000000) = 1052631 \<and>
   (\<exists>wg'. waltgov_calc_avg_cap (sample_env\<lparr>sched_ravg_window := 19999998\<rparr>)
          (sample_wg\<lparr>last_ws := 0, last_cyc_update_time := 0, curr_cycles := 0\<rparr>)
          19999998 1000000 = Inr wg' \<and> avg_cap wg' = 538) \<and>
   freq_to_util sample_wg 1000000 = 512 \<and>
   curr_cycles (waltgov_track_cycles sample_env
          (sample_wg\<lparr>last_ws := 0, last_cyc_update_time := 0, curr_cycles := 0\<rparr>)
          1073741824 4000000) = 4294967296 \<and>
   fst (calc_avg_freq sample_env
          (sample_wg\<lparr>last_ws := 0, last_cyc_update_time := 0, curr_cycles := 0\<rparr>)
          4000000 1073741824) = 0"
  by (simp add: calc_avg_freq_def waltgov_calc_avg_cap_def waltgov_track_cycles_def
      sample_env_def sample_wg_def sample_policy_def NSEC_PER_KHZ_def freq_to_util_def
      mult_frac_def)

subsection \<open>The override chain, rule by rule\<close>

lemma policy_update_commute:
  "(wg :: waltgov_policy)\<lparr>driving_cpu := d, newtask_flag := v\<rparr> =
     wg\<lparr>newtask_flag := v, driving_cpu := d\<rparr>"
  by (cases wg) simp

lemma with_overrides_init:
  "with_overrides st j (reasons (per_cpu st j))
     (driving_cpu (policy_heap st (wg_policy (per_cpu st j))))
     (newtask_flag (policy_heap st (wg_policy (per_cpu st j)))) = st"
  by (simp add: with_overrides_def)

lemma with_overrides_proj [simp]:
  "per_cpu (with_overrides st j rs d nf) j = (per_cpu st j)\<lparr>reasons := rs\<rparr>"
  "policy_heap (with_overrides st j rs d nf) (wg_policy (per_cpu st j)) =
     (policy_heap st (wg_policy (per_cpu st j)))\<lparr>newtask_flag := nf, driving_cpu := d\<rparr>"
  "tunables_heap (with_overrides st j rs d nf) = tunables_heap st"
  "hw_calls (with_overrides st j rs d nf) = hw_calls st"
  by (simp_all add: with_overrides_def)

lemma tunables_of_with_overrides [simp]:
  "tunables_of (with_overrides st j rs d nf) (wg\<lparr>newtask_flag := nf', driving_cpu := d'\<rparr>) =
     tunables_of st wg"
  by (simp add: tunables_of_def)

lemma with_overrides_set_reasons [simp]:
  "set_reasons (with_overrides st j rs d nf) j r = with_overrides st j r d nf"
  by (simp add: with_overrides_def set_reasons_def)

lemma with_overrides_set_newtask_flag [simp]:
  "set_newtask_flag env (with_overrides st j rs d nf) (wg_policy (per_cpu st j)) v =
     with_overrides st j rs d (if OPLUS_FEATURE_OCH env then v else nf)"
  by (simp add: with_overrides_def set_newtask_flag_def set_policy_def policy_update_commute)

lemma with_overrides_max_and_reason:
  "max_and_reason (with_overrides st j rs d nf) u b j r =
     (fst (rule_step (cpu (per_cpu st j)) (True, b, r) (u, rs, d)),
      with_overrides st j
        (fst (snd (rule_step (cpu (per_cpu st j)) (True, b, r) (u, rs, d))))
        (snd (snd (rule_step (cpu (per_cpu st j)) (True, b, r) (u, rs, d)))) nf)"
  by (simp add: max_and_reason_def rule_step_def with_overrides_def set_reasons_def
      set_policy_def Let_def)

lemma rule_stage [simp]:
  "(if c then max_and_reason (with_overrides st j rs d nf) u b j r
    else (u, with_overrides st j rs d nf)) =
     (fst (rule_step (cpu (per_cpu st j)) (c, b, r) (u, rs, d)),
      with_overrides st j
        (fst (snd (rule_step (cpu (per_cpu st j)) (c, b, r) (u, rs, d))))
        (snd (snd (rule_step (cpu (per_cpu st j)) (c, b, r) (u, rs, d)))) nf)"
  by (simp add: with_overrides_max_and_reason) (simp add: rule_step_def)

lemma rule_stage_newtask [simp]:
  "h = wg_policy (per_cpu st j) \<Longrightarrow>
   (if c then (case max_and_reason (with_overrides st j rs d nf) u b j r of
                 (u', s) \<Rightarrow> (u', set_newtask_flag env s h 1))
    else (u, set_newtask_flag env (with_overrides st j rs d nf) h 0)) =
     (fst (rule_step (cpu (per_cpu st j)) (c, b, r) (u, rs, d)),
      with_overrides st j
        (fst (snd (rule_step (cpu (per_cpu st j)) (c, b, r) (u, rs, d))))
        (snd (snd (rule_step (cpu (per_cpu st j)) (c, b, r) (u, rs, d))))
        (if OPLUS_FEATURE_OCH env then (if c then 1 else 0) else nf))"
  by (simp add: with_overrides_max_and_reason) (simp add: rule_step_def)

lemma with_overrides_or_reason [simp]:
  "(if c then set_reasons (with_overrides st j rs d nf) j
               (reasons (per_cpu (with_overrides st j rs d nf) j) OR e)
    else with_overrides st j rs d nf) =
     with_overrides st j (if c then rs OR e else rs) d nf"
  by simp

lemma rule_stage_last [simp]:
  "(if c then max_and_reason
              (if c' then set_reasons (with_overrides st j rs d nf) j
                            (reasons (per_cpu (with_overrides st j rs d nf) j) OR e)
               else with_overrides st j rs d nf) u b j r
    else (u, if c' then set_reasons (with_overrides st j rs d nf) j
                          (reasons (per_cpu (with_overrides st j rs d nf) j) OR e)
             else with_overrides st j rs d nf)) =
     (fst (rule_step (cpu (per_cpu st j)) (c, b, r) (u, if c' then rs OR e else rs, d)),
      with_overrides st j
        (fst (snd (rule_step (cpu (per_cpu st j)) (c, b, r) (u, if c' then rs OR e else rs, d))))
        (snd (snd (rule_step (cpu (per_cpu st j)) (c, b, r) (u, if c' then rs OR e else rs, d))))
        nf)"
  by (simp only: with_overrides_or_reason rule_stage)

lemma walt_adjust_with_overrides:
  "waltgov_walt_adjust env (with_overrides st j rs d nf) j cu n ut mx =
     (let wc = per_cpu st j;
          employ_ed_boost = (ed_active (walt_load wc) \<and> sysctl_ed_boost_pct env \<noteq> 0);
          X5 = fold (rule_step (cpu wc)) (override_rules env st j cu n mx) (ut, rs, d);
          X6 = (fst X5,
                if employ_ed_boost then fst (snd X5) OR CPUFREQ_REASON_EARLY_DET env
                else fst (snd X5),
                snd (snd X5));
          X7 = rule_step (cpu wc) (big_task_rotation (walt_load wc), mx, CPUFREQ_REASON_BTR env) X6
      in (fst X7, with_overrides st j (fst (snd X7)) (snd (snd X7))
            (if OPLUS_FEATURE_OCH env
             then (if newtask_rule env st j cu n then 1 else 0)
             else nf)))"
  unfolding waltgov_walt_adjust_def override_rules_def newtask_rule_def Let_def
  apply (simp split del: if_split)
  apply (simp split del: if_split cong del: if_weak_cong)
  done

lemma walt_adjust_outcome:
  "waltgov_walt_adjust env st j cu n ut mx =
     (fst (override_outcome env st j cu n ut mx),
      with_overrides st j
        (fst (snd (override_outcome env st j cu n ut mx)))
        (snd (snd (override_outcome env st j cu n ut mx)))
        (if OPLUS_FEATURE_OCH env
         then (if newtask_rule env st j cu n then 1 else 0)
         else newtask_flag (policy_heap st (wg_policy (per_cpu st j)))))"
  using walt_adjust_with_overrides [of env st j "reasons (per_cpu st j)"
      "driving_cpu (policy_heap st (wg_policy (per_cpu st j)))"
      "newtask_flag (policy_heap st (wg_policy (per_cpu st j)))" cu n ut mx]
  by (simp only: with_overrides_init override_outcome_def Let_def)

lemma rule_step_cases:
  "rule_step c rl acc = acc \<or> fst (snd (rule_step c rl acc)) = snd (snd rl)"
  by (cases rl; cases acc) (simp add: rule_step_def)

lemma fold_rule_step_reason:
  "fst (snd (fold (rule_step c) rls acc)) = fst (snd acc) \<or>
   fst (snd (fold (rule_step c) rls acc)) \<in> (\<lambda>rl. snd (snd rl)) ` set rls"
proof (induction rls arbitrary: acc)
  case Nil
  then show ?case by simp
next
  case (Cons rl rls)
  from Cons.IH [of "rule_step c rl acc"] rule_step_cases [of c rl acc]
  show ?case by auto
qed

lemma override_rules_reasons:
  "(\<lambda>rl. snd (snd rl)) ` set (override_rules env st j cu n mx) =
     {CPUFREQ_REASON_EARLY_DET env, CPUFREQ_REASON_RTG_BOOST env, CPUFREQ_REASON_HISPEED env,
      CPUFREQ_REASON_NWD env, CPUFREQ_REASON_PL env}"
  by (simp add: override_rules_def Let_def)

text \<open>
  C7. After \<open>waltgov_walt_adjust\<close> the CPU's \<open>reasons\<close> field holds one reason: the five
  rules early detection, RTG boost, hispeed, new task and predicted load are folded in
  this order, each winner replacing the running maximum and overwriting the field, so
  that the fold leaves the reason of the last winner (or the value the field had, if
  no rule won). The early-detection bit is then OR-ed into the field when early
  detection is employed, so it stays next to a later winner such as predicted load.
  Big-task rotation comes last and, when it wins, overwrites the field as a whole.
\<close>

theorem C7_one_reason_recorded:
  fixes env st j cu n ut mx
  defines "X5 \<equiv> fold (rule_step (cpu (per_cpu st j))) (override_rules env st j cu n mx)
                   (ut, reasons (per_cpu st j),
                    driving_cpu (policy_heap st (wg_policy (per_cpu st j))))"
  defines "employ_ed_boost \<equiv>
             ed_active (walt_load (per_cpu st j)) \<and> sysctl_ed_boost_pct env \<noteq> 0"
  defines "btr_wins \<equiv> big_task_rotation (walt_load (per_cpu st j)) \<and> mx \<noteq> 0 \<and> fst X5 \<le> mx"
  shows "reasons (per_cpu (snd (waltgov_walt_adjust env st j cu n ut mx)) j) =
           (if btr_wins then CPUFREQ_REASON_BTR env
            else if employ_ed_boost then fst (snd X5) OR CPUFREQ_REASON_EARLY_DET env
            else fst (snd X5)) \<and>
         fst (snd X5) \<in>
           {reasons (per_cpu st j), CPUFREQ_REASON_EARLY_DET env, CPUFREQ_REASON_RTG_BOOST env,
            CPUFREQ_REASON_HISPEED env, CPUFREQ_REASON_NWD env, CPUFREQ_REASON_PL env}"
proof -
  have a: "reasons (per_cpu (snd (waltgov_walt_adjust env st j cu n ut mx)) j) =
             fst (snd (override_outcome env st j cu n ut mx))"
    by (simp add: walt_adjust_outcome)
  have b: "fst (snd (override_outcome env st j cu n ut mx)) =
             (if btr_wins then CPUFREQ_REASON_BTR env
              else if employ_ed_boost then fst (snd X5) OR CPUFREQ_REASON_EARLY_DET env
              else fst (snd X5))"
    by (simp add: override_outcome_def Let_def rule_step_def X5_def employ_ed_boost_def
        btr_wins_def)
  have c: "fst (snd X5) \<in>
           {reasons (per_cpu st j), CPUFREQ_REASON_EARLY_DET env, CPUFREQ_REASON_RTG_BOOST env,
            CPUFREQ_REASON_HISPEED env, CPUFREQ_REASON_NWD env, CPUFREQ_REASON_PL env}"
    using fold_rule_step_reason [of "cpu (per_cpu st j)" "override_rules env st j cu n mx"
        "(ut, reasons (per_cpu st j), driving_cpu (policy_heap st (wg_policy (per_cpu st j))))"]
    unfolding X5_def override_rules_reasons by auto
  show ?thesis using a b c by simp
qed

lemmas sample_defs = sample_env_def sample_policy_def sample_wg_def sample_tunables_def
  sample_load_def sample_cpu_def sample_state_def

text \<open>An instance: early detection is employed and predicted load wins last, so the
  field holds both bits.\<close>

theorem C7_one_reason_recorded_example:
  "reasons (per_cpu (snd (waltgov_walt_adjust (sample_env\<lparr>sysctl_ed_boost_pct := 10\<rparr>)
       (sample_state\<lparr>per_cpu := (per_cpu sample_state)(0 := (sample_cpu 0)
          \<lparr>walt_load := sample_load\<lparr>ed_active := True, pl_wl := 900\<rparr>\<rparr>),
          tunables_heap := (\<lambda>t. sample_tunables\<lparr>pl := True\<rparr>)\<rparr>)
       0 500 0 500 1024)) 0) = 6"
  by (simp only: C7_one_reason_recorded [THEN conjunct1])
    (simp add: sample_defs override_rules_def rule_step_def tunables_of_def mult_frac_def
      NL_RATIO_def TARGET_LOAD_def)

subsection \<open>The hispeed rule\<close>




subsection \<open>Boost scaling in the aggregation\<close>

lemma mult_frac_nat:
  "0 < d \<Longrightarrow> (x div d) * n + ((x mod d) * n) div d = (x * n) div (d :: nat)"
proof -
  assume d: "0 < d"
  have "x * n = (x div d) * n * d + (x mod d) * n"
    by (metis div_mult_mod_eq distrib_right mult.assoc mult.commute)
  then have "(x * n) div d = ((x div d) * n * d + (x mod d) * n) div d" by simp
  also have "\<dots> = (x div d) * n + ((x mod d) * n) div d"
    using d by simp
  finally show ?thesis by simp
qed

lemma mult_frac_unat:
  assumes d: "d \<noteq> 0" and small: "unat (x mod d) * unat n < 2 ^ 64"
  shows "unat (mult_frac x n d) = (unat x * unat n) div unat d mod 2 ^ 64"
proof -
  have d0: "0 < unat d" using d by (simp add: unat_gt_0)
  have r: "unat ((x mod d) * n div d) = (unat x mod unat d) * unat n div unat d"
    using small by (simp add: unat_div unat_mod unat_mult_lem [THEN iffD1])
  have q: "unat (x div d * n) = (unat x div unat d * unat n) mod 2 ^ 64"
    by (simp add: unat_word_ariths unat_div mod_simps)
  have "unat (mult_frac x n d) = (unat (x div d * n) + unat ((x mod d) * n div d)) mod 2 ^ 64"
    unfolding mult_frac_def Let_def by (simp only: unat_word_ariths(1)) simp
  also have "\<dots> = ((unat x div unat d * unat n) mod 2 ^ 64 +
                       (unat x mod unat d) * unat n div unat d) mod 2 ^ 64"
    by (simp only: q r)
  also have "\<dots> = ((unat x div unat d) * unat n + (unat x mod unat d) * unat n div unat d) mod 2 ^ 64"
    by (simp add: mod_simps)
  also have "\<dots> = (unat x * unat n) div unat d mod 2 ^ 64"
    by (simp only: mult_frac_nat [OF d0])
  finally show ?thesis .
qed

lemma boost_factor:
  fixes b :: u32
  assumes lo: "- 100 \<le> sint b" and hi: "sint b \<le> 1000"
  shows "unat (scast (b + 100) :: u64) = nat (100 + sint b)"
proof -
  have s: "sint (b + 100) = sint b + 100"
  proof -
    have "sint (b + 100) = signed_take_bit (LENGTH(32) - 1) (sint b + sint (100 :: u32))"
      by (rule sint_word_add)
    also have "sint (100 :: u32) = 100" by simp
    also have "signed_take_bit (LENGTH(32) - 1) (sint b + 100) = sint b + 100"
      by (rule signed_take_bit_int_eq_self) (use lo hi in simp_all)
    finally show ?thesis .
  qed
  have "uint (scast (b + 100) :: u64) = take_bit LENGTH(64) (sint (b + 100))"
    by (simp only: scast_eq uint_word_of_int take_bit_eq_mod)
  also have "\<dots> = take_bit LENGTH(64) (sint b + 100)" by (simp only: s)
  also have "\<dots> = sint b + 100"
    by (rule take_bit_int_eq_self) (use lo hi in simp_all)
  finally have "uint (scast (b + 100) :: u64) = 100 + sint b" by simp
  then show ?thesis by (simp add: unat_eq_nat_uint)
qed


lemma boost_scaled:
  fixes b :: u32
  assumes lo: "- 100 \<le> sint b" and hi: "sint b \<le> 1000"
  shows "unat (mult_frac x (scast (b + 100)) 100) = unat x * nat (100 + sint b) div 100 mod 2 ^ 64"
proof -
  have f: "unat (scast (b + 100) :: u64) = nat (100 + sint b)"
    by (rule boost_factor [OF lo hi])
  have m: "unat (x mod 100) < 100"
    by (simp add: unat_mod)
  have "nat (100 + sint b) \<le> 1100" using hi by simp
  with m have "unat (x mod 100) * nat (100 + sint b) \<le> 100 * 1100"
    by (intro mult_mono) simp_all
  then have small: "unat (x mod 100) * unat (scast (b + 100) :: u64) < 2 ^ 64"
    by (simp add: f)
  have "unat (mult_frac x (scast (b + 100)) 100) =
          unat x * unat (scast (b + 100) :: u64) div unat (100 :: u64) mod 2 ^ 64"
    by (rule mult_frac_unat [OF _ small]) simp
  then show ?thesis by (simp add: f)
qed

text \<open>
  C4 (as amended). With a non-zero \<open>boost\<close> in the range \<open>-100..1000\<close> that the store
  function admits, the round of the aggregation loop for CPU \<open>j\<close> scales the CPU's
  utilization and its new-task load to \<open>x * (100 + boost) div 100\<close>, in integer
  arithmetic (modulo \<open>2^64\<close>), before the comparison that picks the driving CPU; the
  scaled values are what \<open>waltgov_walt_adjust\<close> receives. If the running maximum was 0,
  as for the first CPU, the scaled utilization is the driving utilization that enters
  the override rules.
\<close>

theorem C4_boost_scaling:
  fixes b :: u32
  assumes bnz: "b \<noteq> 0" and lo: "- 100 \<le> sint b" and hi: "sint b \<le> 1000"
  shows "\<exists>j_util j_nl ut1 mx1 st1.
           next_freq_shared_pick h b j (ut, mx, st) = (j_util, j_nl, ut1, mx1, st1) \<and>
           unat j_util = unat (util (per_cpu st j)) * nat (100 + sint b) div 100 mod 2 ^ 64 \<and>
           unat j_nl = unat (nl (walt_load (per_cpu st j))) * nat (100 + sint b) div 100 mod 2 ^ 64 \<and>
           (if max_wc (per_cpu st j) * ut \<le> j_util * mx
            then ut1 = j_util \<and> mx1 = max_wc (per_cpu st j)
            else ut1 = ut \<and> mx1 = mx) \<and>
           (ut = 0 \<longrightarrow> ut1 = j_util) \<and>
           next_freq_shared_step env h b j (ut, mx, st) =
             (fst (waltgov_walt_adjust env st1 j j_util j_nl ut1 mx1), mx1,
              snd (waltgov_walt_adjust env st1 j j_util j_nl ut1 mx1))"
  using bnz boost_scaled [OF lo hi, of "util (per_cpu st j)"]
    boost_scaled [OF lo hi, of "nl (walt_load (per_cpu st j))"]
  by (auto simp: next_freq_shared_pick_def next_freq_shared_step_def Let_def split_def)


theorem C4_boost_scaling_witness:
  "next_freq_shared_step sample_env 0 50 0 (0, 1, sample_state) =
     (fst (waltgov_walt_adjust sample_env
             (set_policy sample_state 0 (sample_wg\<lparr>driving_cpu := 0\<rparr>)) 0 450 0 450 1024),
      1024,
      snd (waltgov_walt_adjust sample_env
             (set_policy sample_state 0 (sample_wg\<lparr>driving_cpu := 0\<rparr>)) 0 450 0 450 1024)) \<and>
   unat (450 :: u64) = unat (util (per_cpu sample_state 0)) * nat (100 + sint (50 :: u32)) div 100"
proof -
  have p: "next_freq_shared_pick 0 50 0 (0, 1, sample_state) =
             (450, 0, 450, 1024, set_policy sample_state 0 (sample_wg\<lparr>driving_cpu := 0\<rparr>))"
    by (simp add: next_freq_shared_pick_def sample_defs mult_frac_def set_policy_def)
  have b: "(50 :: u32) \<noteq> 0" "- 100 \<le> sint (50 :: u32)" "sint (50 :: u32) \<le> 1000"
    by simp_all
  from C4_boost_scaling [OF b, of 0 0 0 1 sample_state sample_env]
  show ?thesis
    by (simp add: p) (simp add: sample_defs)
qed

text \<open>
  C4 as stated fails where \<open>1.5 * U\<close> is not an integer: for utilization 3 and boost 50
  the driving utilization before the overrides is 4, and twice 4 is not three times 3.
\<close>

theorem C4_counterexample:
  "util (per_cpu (sample_state\<lparr>per_cpu := (per_cpu sample_state)(0 := (sample_cpu 0)
            \<lparr>util := 3\<rparr>)\<rparr>) 0) = 3 \<and>
   fst (snd (snd (next_freq_shared_pick 0 50 0
     (0, 1, sample_state\<lparr>per_cpu := (per_cpu sample_state)(0 := (sample_cpu 0)
            \<lparr>util := 3\<rparr>)\<rparr>)))) = 4 \<and>
   2 * unat (4 :: u64) \<noteq> 3 * unat (3 :: u64)"
  by (simp add: next_freq_shared_pick_def sample_defs mult_frac_def set_policy_def)

subsection \<open>The adaptive frequency band\<close>

text \<open>
  C2 (as amended). With the user tunable \<open>adaptive_high_freq\<close> non-zero (the test that
  switches the band on), the selector compares the raw frequency of the driving CPU
  with the effective bounds, each the maximum of the user and the kernel value: below
  the low bound it selects the low bound and records ADAPTIVE_LOW on the driving CPU;
  from the low bound up to and including the high bound it selects the high bound and
  records ADAPTIVE_HIGH; above the high bound and not below the low bound it selects the
  raw frequency and writes nothing. The three cases cover every raw frequency, and for
  \<open>low \<le> high\<close> the last one is every raw frequency above the high bound. The selected
  frequency is what the rest of \<open>get_next_freq\<close> works on.
\<close>

theorem C2_adaptive_band:
  fixes env st h ut mx
  defines "wg \<equiv> policy_heap st h"
  defines "raw \<equiv> (ucast (walt_map_util_freq env st ut (policy_heap st h) mx
                      (cpu (per_cpu st (driving_cpu (policy_heap st h))))) :: u32)"
  defines "low \<equiv> get_adaptive_low_freq st (policy_heap st h)"
  defines "high \<equiv> get_adaptive_high_freq st (policy_heap st h)"
  assumes band: "adaptive_high_freq (tunables_of st wg) \<noteq> 0"
  shows "low = max (adaptive_low_freq (tunables_of st wg))
                   (adaptive_low_freq_kernel (tunables_of st wg)) \<and>
         high = max (adaptive_high_freq (tunables_of st wg))
                    (adaptive_high_freq_kernel (tunables_of st wg)) \<and>
         (raw < low \<longrightarrow>
            get_next_freq_select env st h ut mx =
              (low, set_reasons st (driving_cpu wg) (CPUFREQ_REASON_ADAPTIVE_LOW env))) \<and>
         (low \<le> raw \<and> raw \<le> high \<longrightarrow>
            get_next_freq_select env st h ut mx =
              (high, set_reasons st (driving_cpu wg) (CPUFREQ_REASON_ADAPTIVE_HIGH env))) \<and>
         (low \<le> raw \<and> high < raw \<longrightarrow> get_next_freq_select env st h ut mx = (raw, st)) \<and>
         (low \<le> high \<and> high < raw \<longrightarrow> get_next_freq_select env st h ut mx = (raw, st)) \<and>
         get_next_freq env st h ut mx time =
           get_next_freq_commit env (snd (get_next_freq_select env st h ut mx)) h
             (fst (get_next_freq_select env st h ut mx)) time"
proof -
  have 1: "low = max (adaptive_low_freq (tunables_of st wg))
                   (adaptive_low_freq_kernel (tunables_of st wg))"
    and 2: "high = max (adaptive_high_freq (tunables_of st wg))
                    (adaptive_high_freq_kernel (tunables_of st wg))"
    by (simp_all add: low_def high_def wg_def get_adaptive_low_freq_def
        get_adaptive_high_freq_def)
  have 3: "raw < low \<longrightarrow>
            get_next_freq_select env st h ut mx =
              (low, set_reasons st (driving_cpu wg) (CPUFREQ_REASON_ADAPTIVE_LOW env))"
    using band by (simp add: get_next_freq_select_def Let_def wg_def raw_def low_def)
  have 4: "low \<le> raw \<and> raw \<le> high \<longrightarrow>
            get_next_freq_select env st h ut mx =
              (high, set_reasons st (driving_cpu wg) (CPUFREQ_REASON_ADAPTIVE_HIGH env))"
    using band
    by (auto simp: get_next_freq_select_def Let_def wg_def raw_def low_def high_def)
  have 5: "low \<le> raw \<and> high < raw \<longrightarrow> get_next_freq_select env st h ut mx = (raw, st)"
    using band
    by (auto simp: get_next_freq_select_def Let_def wg_def raw_def low_def high_def)
  have 7: "low \<le> high \<and> high < raw \<longrightarrow> get_next_freq_select env st h ut mx = (raw, st)"
    using 5 by auto
  have 6: "get_next_freq env st h ut mx time =
           get_next_freq_commit env (snd (get_next_freq_select env st h ut mx)) h
             (fst (get_next_freq_select env st h ut mx)) time"
    by (simp add: get_next_freq_def split_def Let_def)
  from 1 2 3 4 5 6 7 show ?thesis by blast
qed

lemmas band_eval = band_state_def sample_defs tunables_of_def walt_map_util_freq_def
  set_reasons_def

theorem C2_adaptive_band_witness:
  "get_next_freq_select sample_env (band_state 500000 1200000 0 0) 0 120 1000 =
     (500000, set_reasons (band_state 500000 1200000 0 0) 0
                (CPUFREQ_REASON_ADAPTIVE_LOW sample_env)) \<and>
   get_next_freq_select sample_env (band_state 500000 1200000 0 0) 0 360 1000 =
     (1200000, set_reasons (band_state 500000 1200000 0 0) 0
                 (CPUFREQ_REASON_ADAPTIVE_HIGH sample_env)) \<and>
   get_next_freq_select sample_env (band_state 500000 1200000 0 0) 0 600 1000 =
     (1500000, band_state 500000 1200000 0 0)"
proof -
  have b: "adaptive_high_freq (tunables_of (band_state 500000 1200000 0 0)
             (policy_heap (band_state 500000 1200000 0 0) 0)) \<noteq> 0"
    by (simp add: band_eval)
  have r1: "(ucast (walt_map_util_freq sample_env (band_state 500000 1200000 0 0) 120
               (policy_heap (band_state 500000 1200000 0 0) 0) 1000
               (cpu (per_cpu (band_state 500000 1200000 0 0) 0))) :: u32) = 300000"
    by (simp add: band_eval)
  have r2: "(ucast (walt_map_util_freq sample_env (band_state 500000 1200000 0 0) 360
               (policy_heap (band_state 500000 1200000 0 0) 0) 1000
               (cpu (per_cpu (band_state 500000 1200000 0 0) 0))) :: u32) = 900000"
    by (simp add: band_eval)
  have r3: "(ucast (walt_map_util_freq sample_env (band_state 500000 1200000 0 0) 600
               (policy_heap (band_state 500000 1200000 0 0) 0) 1000
               (cpu (per_cpu (band_state 500000 1200000 0 0) 0))) :: u32) = 1500000"
    by (simp add: band_eval)
  have t: "get_adaptive_low_freq (band_state 500000 1200000 0 0)
             (policy_heap (band_state 500000 1200000 0 0) 0) = 500000"
    "get_adaptive_high_freq (band_state 500000 1200000 0 0)
             (policy_heap (band_state 500000 1200000 0 0) 0) = 1200000"
    "driving_cpu (policy_heap (band_state 500000 1200000 0 0) 0) = 0"
    by (simp_all add: band_eval get_adaptive_low_freq_def get_adaptive_high_freq_def)
  have 1: "get_next_freq_select sample_env (band_state 500000 1200000 0 0) 0 120 1000 =
     (500000, set_reasons (band_state 500000 1200000 0 0) 0
                (CPUFREQ_REASON_ADAPTIVE_LOW sample_env))"
    using C2_adaptive_band [OF b, where env = sample_env and ut = 120 and mx = 1000,
        unfolded r1 t]
    by simp
  have 2: "get_next_freq_select sample_env (band_state 500000 1200000 0 0) 0 360 1000 =
     (1200000, set_reasons (band_state 500000 1200000 0 0) 0
                 (CPUFREQ_REASON_ADAPTIVE_HIGH sample_env))"
    using C2_adaptive_band [OF b, where env = sample_env and ut = 360 and mx = 1000,
        unfolded r2 t]
    by simp
  have 3: "get_next_freq_select sample_env (band_state 500000 1200000 0 0) 0 600 1000 =
     (1500000, band_state 500000 1200000 0 0)"
    using C2_adaptive_band [OF b, where env = sample_env and ut = 600 and mx = 1000,
        unfolded r3 t]
    by simp
  from 1 2 3 show ?thesis by simp
qed

text \<open>
  C2 as stated fails in two ways. A band that is configured only through the kernel API
  (effective bounds 500000 and 1200000, user values 0) is not applied: the raw frequency
  300000 is selected as it is. And with the user values 1500000 for the low and 1000000
  for the high bound, the raw frequency 1300000, which is above the high bound, is not
  passed through but raised to 1500000 with the reason ADAPTIVE_LOW.
\<close>

theorem C2_counterexample:
  "get_adaptive_low_freq (band_state 0 0 500000 1200000)
     (policy_heap (band_state 0 0 500000 1200000) 0) = 500000 \<and>
   get_adaptive_high_freq (band_state 0 0 500000 1200000)
     (policy_heap (band_state 0 0 500000 1200000) 0) = 1200000 \<and>
   fst (get_next_freq_select sample_env (band_state 0 0 500000 1200000) 0 120 1000) = 300000 \<and>
   reasons (per_cpu (snd (get_next_freq_select sample_env (band_state 0 0 500000 1200000)
                            0 120 1000)) 0) = 0 \<and>
   get_adaptive_low_freq (band_state 1500000 1000000 0 0)
     (policy_heap (band_state 1500000 1000000 0 0) 0) = 1500000 \<and>
   get_adaptive_high_freq (band_state 1500000 1000000 0 0)
     (policy_heap (band_state 1500000 1000000 0 0) 0) = 1000000 \<and>
   (ucast (walt_map_util_freq sample_env (band_state 1500000 1000000 0 0) 520
             (policy_heap (band_state 1500000 1000000 0 0) 0) 1000
             (cpu (per_cpu (band_state 1500000 1000000 0 0) 0))) :: u32) = 1300000 \<and>
   fst (get_next_freq_select sample_env (band_state 1500000 1000000 0 0) 0 520 1000) = 1500000 \<and>
   reasons (per_cpu (snd (get_next_freq_select sample_env (band_state 1500000 1000000 0 0)
                            0 520 1000)) 0) = CPUFREQ_REASON_ADAPTIVE_LOW sample_env"
  by (simp add: get_next_freq_select_def get_adaptive_low_freq_def get_adaptive_high_freq_def
      band_eval)

text \<open>
  C10. The band is applied only when the user tunable \<open>adaptive_high_freq\<close> is
  non-zero: with it zero the selector passes the raw frequency through and writes no
  reason, whatever the kernel-origin values and hence the effective bounds are.
\<close>

theorem C10_user_high_gates_band:
  assumes "adaptive_high_freq (tunables_of st (policy_heap st h)) = 0"
  shows "get_next_freq_select env st h ut mx =
           (ucast (walt_map_util_freq env st ut (policy_heap st h) mx
                     (cpu (per_cpu st (driving_cpu (policy_heap st h))))), st)"
  using assms by (simp add: get_next_freq_select_def Let_def)

theorem C10_user_high_gates_band_witness:
  "get_adaptive_low_freq (band_state 0 0 500000 1200000)
     (policy_heap (band_state 0 0 500000 1200000) 0) = 500000 \<and>
   get_adaptive_high_freq (band_state 0 0 500000 1200000)
     (policy_heap (band_state 0 0 500000 1200000) 0) = 1200000 \<and>
   get_next_freq_select sample_env (band_state 0 0 500000 1200000) 0 120 1000 =
     (300000, band_state 0 0 500000 1200000)"
proof -
  have z: "adaptive_high_freq (tunables_of (band_state 0 0 500000 1200000)
             (policy_heap (band_state 0 0 500000 1200000) 0)) = 0"
    by (simp add: band_eval)
  have r: "(ucast (walt_map_util_freq sample_env (band_state 0 0 500000 1200000) 120
               (policy_heap (band_state 0 0 500000 1200000) 0) 1000
               (cpu (per_cpu (band_state 0 0 500000 1200000) 0))) :: u32) = 300000"
    by (simp add: band_eval)
  have d: "driving_cpu (policy_heap (band_state 0 0 500000 1200000) 0) = 0"
    by (simp add: band_eval)
  have g: "get_adaptive_low_freq (band_state 0 0 500000 1200000)
     (policy_heap (band_state 0 0 500000 1200000) 0) = 500000"
    "get_adaptive_high_freq (band_state 0 0 500000 1200000)
     (policy_heap (band_state 0 0 500000 1200000) 0) = 1200000"
    by (simp_all add: band_eval get_adaptive_low_freq_def get_adaptive_high_freq_def)
  from C10_user_high_gates_band [OF z, where env = sample_env and ut = 120 and mx = 1000,
      unfolded d r]
  show ?thesis by (simp add: g)
qed

subsection \<open>Setting the kernel-origin band\<close>

text \<open>For a slot whose pointer is valid the function returns 0 exactly when the CPU is
  possible and the two values lie within the policy limits, and then stores them in the
  kernel fields of the domain's tunables; every other result leaves the state as it
  was.\<close>

lemma set_adaptive_freq_result:
  assumes "wg_policy_valid st c"
  shows "cpufreq_walt_set_adaptive_freq env st c low high =
           Inr (if \<not> cpu_possible env c then (- EFAULT, st)
                else if policy_min (policy (policy_heap st (wg_policy (per_cpu st c)))) \<le> low \<and>
                        high \<le> policy_max (policy (policy_heap st (wg_policy (per_cpu st c))))
                then (0, st\<lparr>tunables_heap := (tunables_heap st)
                       (tunables (policy_heap st (wg_policy (per_cpu st c))) :=
                          (tunables_heap st (tunables (policy_heap st (wg_policy (per_cpu st c)))))
                            \<lparr>adaptive_low_freq_kernel := low,
                             adaptive_high_freq_kernel := high\<rparr>)\<rparr>)
                else (- EINVAL, st))"
  using assms by (simp add: cpufreq_walt_set_adaptive_freq_def Let_def)

lemma set_adaptive_freq_invalid:
  "\<not> wg_policy_valid st c \<Longrightarrow> cpufreq_walt_set_adaptive_freq env st c low high = Inl OOPS"
  by (simp add: cpufreq_walt_set_adaptive_freq_def)

text \<open>The slot loop of \<open>waltgov_start\<close> makes the pointers of the policy's CPUs valid and
  no others.\<close>

lemma fold_start_slot_valid:
  "wg_policy_valid (fold (waltgov_start_slot h) cs st) c \<longleftrightarrow> wg_policy_valid st c \<or> c \<in> set cs"
  by (induction cs arbitrary: st) (auto simp: waltgov_start_slot_def)

lemma start_slots_valid:
  "wg_policy_valid (waltgov_start_slots st h) c \<longleftrightarrow>
     wg_policy_valid st c \<or> c \<in> set (cpus (policy (policy_heap st h)))"
  by (simp add: waltgov_start_slots_def fold_start_slot_valid)

text \<open>As long as only possible CPUs have been started, the result \<open>-EFAULT\<close> is never
  returned: a CPU that is not possible ends in the invalid dereference instead.\<close>

lemma set_adaptive_freq_never_EFAULT:
  assumes "\<forall>c. wg_policy_valid st c \<longrightarrow> cpu_possible env c"
  shows "cpufreq_walt_set_adaptive_freq env st c low high \<noteq> Inr (- EFAULT, st')"
  using assms
  by (auto simp: cpufreq_walt_set_adaptive_freq_def Let_def EFAULT_def EINVAL_def)

text \<open>
  C8. The claim holds for the range test and fails for a CPU that is not possible: on
  the sample system, with CPUs 0 to 7 possible and the governor started on the domain of
  CPUs 0 and 1, the call for CPU 8 does not return \<open>-EFAULT\<close>. The slot of CPU 8 was
  never filled in, and the function dereferences its \<open>wg_policy\<close> before it tests
  \<open>cpu_possible\<close>. The same call for CPU 0 stores the two values and returns 0, and a
  value outside the policy limits gives \<open>-EINVAL\<close> and leaves the state as it was.
\<close>

theorem C8_set_adaptive_freq_fault:
  "\<not> cpu_possible sample_env 8 \<and>
   \<not> wg_policy_valid started_state 8 \<and>
   cpufreq_walt_set_adaptive_freq sample_env started_state 8 500000 1200000 = Inl OOPS \<and>
   cpufreq_walt_set_adaptive_freq sample_env started_state 0 500000 1200000 =
     Inr (0, started_state\<lparr>tunables_heap := (tunables_heap started_state)(0 := sample_tunables
            \<lparr>adaptive_low_freq_kernel := 500000, adaptive_high_freq_kernel := 1200000\<rparr>)\<rparr>) \<and>
   cpufreq_walt_set_adaptive_freq sample_env started_state 0 200000 1200000 =
     Inr (- EINVAL, started_state) \<and>
   cpufreq_walt_set_adaptive_freq sample_env started_state 0 500000 2100000 =
     Inr (- EINVAL, started_state)"
  by (simp add: cpufreq_walt_set_adaptive_freq_def started_state_def boot_state_def
      waltgov_start_slots_def waltgov_start_slot_def zeroed_cpu_def sample_defs Let_def)

subsection \<open>The aggregation writes bookkeeping fields only\<close>

lemma bookkeeping_only_refl [simp]: "bookkeeping_only st st"
  by (simp add: bookkeeping_only_def)

lemma bookkeeping_only_trans:
  "bookkeeping_only a b \<Longrightarrow> bookkeeping_only b c \<Longrightarrow> bookkeeping_only a c"
  by (simp add: bookkeeping_only_def)

lemma bookkeeping_only_with_overrides [simp]:
  "bookkeeping_only st (with_overrides st j rs d nf)"
  by (simp add: bookkeeping_only_def with_overrides_def policy_core_def cpu_core_def)

lemma bookkeeping_only_set_reasons [simp]: "bookkeeping_only st (set_reasons st j r)"
  by (simp add: bookkeeping_only_def set_reasons_def cpu_core_def)

lemma bookkeeping_only_driving [simp]:
  "bookkeeping_only st (set_policy st h ((policy_heap st h)\<lparr>driving_cpu := j\<rparr>))"
  by (simp add: bookkeeping_only_def set_policy_def policy_core_def)

lemma bookkeeping_only_walt_adjust:
  "bookkeeping_only st (snd (waltgov_walt_adjust env st j cu n ut mx))"
  by (simp add: walt_adjust_outcome)

lemma bookkeeping_only_pick:
  "bookkeeping_only st (snd (snd (snd (snd (next_freq_shared_pick h b j (ut, mx, st))))))"
  by (simp add: next_freq_shared_pick_def Let_def)

lemma bookkeeping_only_step:
  "bookkeeping_only st (snd (snd (next_freq_shared_step env h b j (ut, mx, st))))"
proof -
  obtain ju jn u1 m1 s1 where p: "next_freq_shared_pick h b j (ut, mx, st) = (ju, jn, u1, m1, s1)"
    by (metis prod_cases5)
  have 1: "bookkeeping_only st s1"
    using bookkeeping_only_pick [of st h b j ut mx] by (simp add: p)
  have 2: "bookkeeping_only s1 (snd (waltgov_walt_adjust env s1 j ju jn u1 m1))"
    by (rule bookkeeping_only_walt_adjust)
  show ?thesis
    using bookkeeping_only_trans [OF 1 2]
    by (simp add: next_freq_shared_step_def p split_def Let_def)
qed

lemma bookkeeping_only_loop:
  "bookkeeping_only st (snd (snd (next_freq_shared_loop env h b js (ut, mx, st))))"
proof (induction js arbitrary: ut mx st)
  case Nil
  then show ?case by simp
next
  case (Cons j js)
  obtain u1 m1 s1 where s: "next_freq_shared_step env h b j (ut, mx, st) = (u1, m1, s1)"
    by (metis prod_cases3)
  have 1: "bookkeeping_only st s1"
    using bookkeeping_only_step [of st env h b j ut mx] by (simp add: s)
  have 2: "bookkeeping_only s1 (snd (snd (next_freq_shared_loop env h b js (u1, m1, s1))))"
    by (rule Cons.IH)
  show ?case
    using bookkeeping_only_trans [OF 1 2] by (simp add: s)
qed

lemma bookkeeping_only_aggregate:
  "bookkeeping_only st (snd (snd (next_freq_shared_aggregate env st c)))"
  using bookkeeping_only_loop
  by (simp add: next_freq_shared_aggregate_def Let_def split_def)

lemma policy_core_fields:
  "policy_core a = policy_core b \<Longrightarrow>
     next_freq a = next_freq b \<and> last_freq_update_time a = last_freq_update_time b \<and>
     up_rate_delay_ns a = up_rate_delay_ns b \<and> down_rate_delay_ns a = down_rate_delay_ns b \<and>
     flags_wp a = flags_wp b \<and> cached_raw_freq a = cached_raw_freq b \<and>
     need_freq_update a = need_freq_update b \<and> limits_changed a = limits_changed b \<and>
     policy a = policy b \<and> tunables a = tunables b"
  unfolding policy_core_def
  by (cases a, cases b) simp

lemma cpu_core_fields:
  "cpu_core a = cpu_core b \<Longrightarrow> wg_policy a = wg_policy b \<and> cpu a = cpu b"
  unfolding cpu_core_def
  by (cases a, cases b) simp

subsection \<open>The selector: cached frequency and repeated calls\<close>

lemma select_state:
  "snd (get_next_freq_select env st h ut mx) = st \<or>
   (\<exists>r. snd (get_next_freq_select env st h ut mx) =
          set_reasons st (driving_cpu (policy_heap st h)) r)"
  by (auto simp: get_next_freq_select_def Let_def)

lemma select_keeps:
  "policy_heap (snd (get_next_freq_select env st h ut mx)) = policy_heap st"
  "tunables_heap (snd (get_next_freq_select env st h ut mx)) = tunables_heap st"
  "hw_calls (snd (get_next_freq_select env st h ut mx)) = hw_calls st"
  using select_state [of env st h ut mx]
  by (auto simp: set_reasons_def)

lemma bookkeeping_only_select:
  "bookkeeping_only st (snd (get_next_freq_select env st h ut mx))"
  using select_state [of env st h ut mx] by auto

text \<open>select: the frequency depends on few things\<close>

lemma select_freq_cong:
  assumes "policy (policy_heap st' h) = policy (policy_heap st h)"
    and "driving_cpu (policy_heap st' h) = driving_cpu (policy_heap st h)"
    and "tunables (policy_heap st' h) = tunables (policy_heap st h)"
    and "tunables_heap st' = tunables_heap st"
    and "cpu (per_cpu st' (driving_cpu (policy_heap st h))) =
         cpu (per_cpu st (driving_cpu (policy_heap st h)))"
  shows "fst (get_next_freq_select env st' h ut mx) = fst (get_next_freq_select env st h ut mx)"
  using assms
  by (simp add: get_next_freq_select_def Let_def walt_map_util_freq_def tunables_of_def
      get_adaptive_low_freq_def get_adaptive_high_freq_def)


lemma commit_shortcircuit:
  assumes "cached_raw_freq (policy_heap st h) \<noteq> 0"
    and "freq = cached_raw_freq (policy_heap st h)"
    and "\<not> need_freq_update (policy_heap st h)"
  shows "get_next_freq_commit env st h freq time = (0, st)"
  using assms by (simp add: get_next_freq_commit_def Let_def)

lemma get_next_freq_shortcircuit:
  assumes c: "cached_raw_freq (policy_heap st h) \<noteq> 0"
    and f: "fst (get_next_freq_select env st h ut mx) = cached_raw_freq (policy_heap st h)"
    and n: "\<not> need_freq_update (policy_heap st h)"
  shows "get_next_freq env st h ut mx time = (0, snd (get_next_freq_select env st h ut mx))"
proof -
  let ?s = "snd (get_next_freq_select env st h ut mx)"
  have "get_next_freq_commit env ?s h (fst (get_next_freq_select env st h ut mx)) time = (0, ?s)"
    by (rule commit_shortcircuit) (simp_all add: select_keeps c f n)
  then show ?thesis by (simp add: get_next_freq_def split_def Let_def)
qed

lemma commit_keeps:
  "per_cpu (snd (get_next_freq_commit env st h freq time)) = per_cpu st"
  "tunables_heap (snd (get_next_freq_commit env st h freq time)) = tunables_heap st"
  "policy (policy_heap (snd (get_next_freq_commit env st h freq time)) h') =
     policy (policy_heap st h')"
  "driving_cpu (policy_heap (snd (get_next_freq_commit env st h freq time)) h') =
     driving_cpu (policy_heap st h')"
  "tunables (policy_heap (snd (get_next_freq_commit env st h freq time)) h') =
     tunables (policy_heap st h')"
  by (simp_all add: get_next_freq_commit_def Let_def set_policy_def waltgov_update_next_freq_def
      split_def)

lemma get_next_freq_unfold:
  "get_next_freq env st h ut mx time =
     get_next_freq_commit env (snd (get_next_freq_select env st h ut mx)) h
       (fst (get_next_freq_select env st h ut mx)) time"
  by (simp add: get_next_freq_def split_def Let_def)

lemma select_freq_after:
  "fst (get_next_freq_select env (snd (get_next_freq env st h ut mx time)) h ut mx) =
   fst (get_next_freq_select env st h ut mx)"
proof -
  let ?sel = "get_next_freq_select env st h ut mx"
  let ?st' = "snd (get_next_freq_commit env (snd ?sel) h (fst ?sel) time)"
  have c: "cpu (per_cpu (snd ?sel) j) = cpu (per_cpu st j)" for j
    using select_state [of env st h ut mx] by (auto simp: set_reasons_def)
  have "fst (get_next_freq_select env ?st' h ut mx) = fst ?sel"
    by (rule select_freq_cong) (simp_all add: select_keeps commit_keeps c)
  then show ?thesis by (simp add: get_next_freq_unfold)
qed

lemma commit_committed:
  assumes "fst (get_next_freq_commit env st h freq time) \<noteq> 0"
  shows "\<not> need_freq_update (policy_heap (snd (get_next_freq_commit env st h freq time)) h) \<and>
         next_freq (policy_heap (snd (get_next_freq_commit env st h freq time)) h) =
           cpufreq_driver_resolve_freq env (policy (policy_heap st h)) freq"
  using assms
  by (auto simp: get_next_freq_commit_def Let_def waltgov_update_next_freq_def set_policy_def
      split_def split: if_splits)

lemma settled_after_commit:
  assumes "fst (get_next_freq env st h ut mx time) \<noteq> 0"
  shows "settled env (snd (get_next_freq env st h ut mx time)) h ut mx"
proof -
  let ?sel = "get_next_freq_select env st h ut mx"
  from assms have "fst (get_next_freq_commit env (snd ?sel) h (fst ?sel) time) \<noteq> 0"
    by (simp add: get_next_freq_unfold)
  from commit_committed [OF this] show ?thesis
    unfolding settled_def select_freq_after
    by (simp add: get_next_freq_unfold commit_keeps)
qed

lemma commit_settled:
  assumes n: "\<not> need_freq_update (policy_heap st h)"
    and r: "cpufreq_driver_resolve_freq env (policy (policy_heap st h)) freq =
            next_freq (policy_heap st h)"
  shows "fst (get_next_freq_commit env st h freq time) = 0 \<and>
         \<not> need_freq_update (policy_heap (snd (get_next_freq_commit env st h freq time)) h) \<and>
         next_freq (policy_heap (snd (get_next_freq_commit env st h freq time)) h') =
           next_freq (policy_heap st h') \<and>
         last_freq_update_time (policy_heap (snd (get_next_freq_commit env st h freq time)) h') =
           last_freq_update_time (policy_heap st h')"
  using n r
  by (auto simp: get_next_freq_commit_def Let_def waltgov_update_next_freq_def set_policy_def
      split_def)

lemma settled_step:
  assumes s: "settled env st h ut mx"
  shows "fst (get_next_freq env st h ut mx time) = 0 \<and>
         settled env (snd (get_next_freq env st h ut mx time)) h ut mx \<and>
         next_freq (policy_heap (snd (get_next_freq env st h ut mx time)) h') =
           next_freq (policy_heap st h') \<and>
         last_freq_update_time (policy_heap (snd (get_next_freq env st h ut mx time)) h') =
           last_freq_update_time (policy_heap st h')"
proof -
  let ?sel = "get_next_freq_select env st h ut mx"
  have n: "\<not> need_freq_update (policy_heap (snd ?sel) h)"
    and r: "cpufreq_driver_resolve_freq env (policy (policy_heap (snd ?sel) h)) (fst ?sel) =
            next_freq (policy_heap (snd ?sel) h)"
    using s by (simp_all add: settled_def select_keeps)
  note a = commit_settled [OF n r, of time]
  have b: "next_freq (policy_heap (snd (get_next_freq env st h ut mx time)) h) =
             next_freq (policy_heap st h)"
    using a [of h] by (simp add: get_next_freq_unfold select_keeps)
  have "settled env (snd (get_next_freq env st h ut mx time)) h ut mx"
    unfolding settled_def select_freq_after
    using a [of h] r b by (simp add: get_next_freq_unfold commit_keeps select_keeps)
  with a [of h'] show ?thesis by (simp add: get_next_freq_unfold select_keeps)
qed

lemma settled_calls:
  "settled env st h ut mx \<Longrightarrow>
     (\<forall>f \<in> set (fst (get_next_freq_calls env st h ut mx ts)). f = 0) \<and>
     next_freq (policy_heap (snd (get_next_freq_calls env st h ut mx ts)) h') =
       next_freq (policy_heap st h') \<and>
     last_freq_update_time (policy_heap (snd (get_next_freq_calls env st h ut mx ts)) h') =
       last_freq_update_time (policy_heap st h')"
proof (induction ts arbitrary: st)
  case Nil
  then show ?case by simp
next
  case (Cons t ts)
  from settled_step [OF Cons.prems, of t h']
  have 1: "fst (get_next_freq env st h ut mx t) = 0"
    and 2: "settled env (snd (get_next_freq env st h ut mx t)) h ut mx"
    and 3: "next_freq (policy_heap (snd (get_next_freq env st h ut mx t)) h') =
              next_freq (policy_heap st h')"
    and 4: "last_freq_update_time (policy_heap (snd (get_next_freq env st h ut mx t)) h') =
              last_freq_update_time (policy_heap st h')"
    by simp_all
  from Cons.IH [OF 2] 1 3 4 show ?case
    by (simp add: split_def Let_def)
qed

lemma length_get_next_freq_calls:
  "length (fst (get_next_freq_calls env st h ut mx ts)) = length ts"
  by (induction ts arbitrary: st) (simp_all add: split_def Let_def)

lemma all_zero_replicate: "\<forall>f \<in> set L. f = (0 :: u32) \<Longrightarrow> L = replicate (length L) 0"
  by (induction L) auto

lemma commit_same:
  assumes "\<not> need_freq_update (policy_heap st h)"
    and "cached_raw_freq (policy_heap st h) = freq"
    and "freq = 0 \<longrightarrow>
           cpufreq_driver_resolve_freq env (policy (policy_heap st h)) 0 =
             next_freq (policy_heap st h)"
  shows "fst (get_next_freq_commit env st h freq time) = 0 \<and>
         commit_fields (policy_heap (snd (get_next_freq_commit env st h freq time)) h) =
           commit_fields (policy_heap st h)"
  using assms
  by (auto simp: get_next_freq_commit_def Let_def waltgov_update_next_freq_def set_policy_def
      commit_fields_def split_def)

lemma get_next_freq_same:
  assumes n: "\<not> need_freq_update (policy_heap st h)"
    and c: "cached_raw_freq (policy_heap st h) = fst (get_next_freq_select env st h ut mx)"
    and r: "fst (get_next_freq_select env st h ut mx) = 0 \<longrightarrow>
           cpufreq_driver_resolve_freq env (policy (policy_heap st h)) 0 =
             next_freq (policy_heap st h)"
  shows "fst (get_next_freq env st h ut mx time) = 0 \<and>
         commit_fields (policy_heap (snd (get_next_freq env st h ut mx time)) h) =
           commit_fields (policy_heap st h)"
proof -
  let ?sel = "get_next_freq_select env st h ut mx"
  have "fst (get_next_freq_commit env (snd ?sel) h (fst ?sel) time) = 0 \<and>
        commit_fields (policy_heap (snd (get_next_freq_commit env (snd ?sel) h (fst ?sel) time)) h) =
          commit_fields (policy_heap (snd ?sel) h)"
    by (rule commit_same) (simp_all add: select_keeps n c r)
  then show ?thesis by (simp add: get_next_freq_unfold select_keeps)
qed

lemma commit_caches:
  assumes "fst (get_next_freq env st h ut mx time) \<noteq> 0"
  shows "\<not> need_freq_update (policy_heap (snd (get_next_freq env st h ut mx time)) h) \<and>
         cached_raw_freq (policy_heap (snd (get_next_freq env st h ut mx time)) h) =
           fst (get_next_freq_select env st h ut mx)"
  using assms
  by (auto simp: get_next_freq_unfold get_next_freq_commit_def Let_def
      waltgov_update_next_freq_def set_policy_def split_def split: if_splits)

lemma same_selections_run:
  assumes "\<not> need_freq_update wg" and "cached_raw_freq wg = R" and "same_selections h R wg cs"
  shows "\<forall>(env, st, ut, mx, t) \<in> set cs.
           fst (get_next_freq env st h ut mx t) = 0 \<and>
           next_freq (policy_heap (snd (get_next_freq env st h ut mx t)) h) = next_freq wg \<and>
           last_freq_update_time (policy_heap (snd (get_next_freq env st h ut mx t)) h) =
             last_freq_update_time wg"
  using assms
proof (induction cs arbitrary: wg)
  case Nil
  then show ?case by simp
next
  case (Cons c cs)
  obtain env st ut mx t where c: "c = (env, st, ut, mx, t)" by (cases c) auto
  let ?wg' = "policy_heap (snd (get_next_freq env st h ut mx t)) h"
  from Cons.prems(3) c
  have f: "commit_fields (policy_heap st h) = commit_fields wg"
    and s: "fst (get_next_freq_select env st h ut mx) = R"
    and r: "R = 0 \<longrightarrow> cpufreq_driver_resolve_freq env (policy (policy_heap st h)) 0 = next_freq wg"
    and rest: "same_selections h R ?wg' cs"
    by simp_all
  from f Cons.prems(1,2)
  have n: "\<not> need_freq_update (policy_heap st h)"
    and cr: "cached_raw_freq (policy_heap st h) = R"
    and nf: "next_freq (policy_heap st h) = next_freq wg"
    by (simp_all add: commit_fields_def)
  have step: "fst (get_next_freq env st h ut mx t) = 0 \<and>
              commit_fields ?wg' = commit_fields (policy_heap st h)"
    by (rule get_next_freq_same) (simp_all add: n cr s r nf)
  then have eq: "commit_fields ?wg' = commit_fields wg" using f by simp
  then have n': "\<not> need_freq_update ?wg'" and c': "cached_raw_freq ?wg' = R"
    and nf': "next_freq ?wg' = next_freq wg"
    and lt': "last_freq_update_time ?wg' = last_freq_update_time wg"
    using Cons.prems(1,2) by (simp_all add: commit_fields_def)
  from Cons.IH [OF n' c' rest] nf' lt' step c
  show ?case by simp
qed

lemma select_freq_same:
  assumes "policy (policy_heap st' h) = policy (policy_heap st h)"
    and "tunables_of st' (policy_heap st' h) = tunables_of st (policy_heap st h)"
    and "cpu_util_rt env' (cpu (per_cpu st' (driving_cpu (policy_heap st' h)))) =
         cpu_util_rt env (cpu (per_cpu st (driving_cpu (policy_heap st h))))"
  shows "fst (get_next_freq_select env' st' h ut mx) = fst (get_next_freq_select env st h ut mx)"
  using assms
  by (simp add: get_next_freq_select_def Let_def walt_map_util_freq_def
      get_adaptive_low_freq_def get_adaptive_high_freq_def)

text \<open>
  C3 (as amended). If the band-adjusted raw frequency equals \<open>cached_raw_freq\<close>, the
  cached value is non-zero and \<open>need_freq_update\<close> is clear, \<open>get_next_freq\<close> returns 0
  right after the selection: no call leaves the governor (the driver is not asked to
  resolve a frequency), no domain is modified (so \<open>next_freq\<close> and
  \<open>last_freq_update_time\<close> stay), and the dispatch at the end of the update does nothing
  for the result 0.

  Once a call has committed a frequency, every further selection that computes the same
  band-adjusted raw frequency returns 0, leaves \<open>next_freq\<close> and
  \<open>last_freq_update_time\<close> as committed and is followed by no hardware write, in whatever
  environment and state it runs, as long as the commit fields of the domain are touched
  by nothing else (\<open>same_selections\<close>). The raw frequency is the same whenever the
  aggregated utilization and capacity, the policy, the tunables and the real-time
  utilization of the driving CPU are the same; and in particular the calls repeated on
  the state the commit left all return 0.
\<close>

theorem C3_noop_shortcircuit:
  "(cached_raw_freq (policy_heap st h) \<noteq> 0 \<and>
    fst (get_next_freq_select env st h ut mx) = cached_raw_freq (policy_heap st h) \<and>
    \<not> need_freq_update (policy_heap st h) \<longrightarrow>
      get_next_freq env st h ut mx time = (0, snd (get_next_freq_select env st h ut mx)) \<and>
      hw_calls (snd (get_next_freq env st h ut mx time)) = hw_calls st \<and>
      policy_heap (snd (get_next_freq env st h ut mx time)) = policy_heap st \<and>
      waltgov_update_freq_dispatch env (snd (get_next_freq env st h ut mx time)) h time
        (fst (get_next_freq env st h ut mx time)) = snd (get_next_freq env st h ut mx time)) \<and>
   (fst (get_next_freq env st h ut mx tc) \<noteq> 0 \<and>
    same_selections h (fst (get_next_freq_select env st h ut mx))
      (policy_heap (snd (get_next_freq env st h ut mx tc)) h) cs \<longrightarrow>
      (\<forall>(env', st', ut', mx', t') \<in> set cs.
         fst (get_next_freq env' st' h ut' mx' t') = 0 \<and>
         next_freq (policy_heap (snd (get_next_freq env' st' h ut' mx' t')) h) =
           next_freq (policy_heap (snd (get_next_freq env st h ut mx tc)) h) \<and>
         last_freq_update_time (policy_heap (snd (get_next_freq env' st' h ut' mx' t')) h) =
           last_freq_update_time (policy_heap (snd (get_next_freq env st h ut mx tc)) h) \<and>
         waltgov_update_freq_dispatch env' (snd (get_next_freq env' st' h ut' mx' t')) h t'
           (fst (get_next_freq env' st' h ut' mx' t')) =
             snd (get_next_freq env' st' h ut' mx' t'))) \<and>
   (policy (policy_heap sta h) = policy (policy_heap st h) \<and>
    tunables_of sta (policy_heap sta h) = tunables_of st (policy_heap st h) \<and>
    cpu_util_rt enva (cpu (per_cpu sta (driving_cpu (policy_heap sta h)))) =
      cpu_util_rt env (cpu (per_cpu st (driving_cpu (policy_heap st h)))) \<longrightarrow>
      fst (get_next_freq_select enva sta h ut mx) = fst (get_next_freq_select env st h ut mx)) \<and>
   (fst (get_next_freq env st h ut mx tc) \<noteq> 0 \<longrightarrow>
      (\<forall>f \<in> set (fst (get_next_freq_calls env (snd (get_next_freq env st h ut mx tc))
                         h ut mx ts)). f = 0) \<and>
      next_freq (policy_heap (snd (get_next_freq_calls env
          (snd (get_next_freq env st h ut mx tc)) h ut mx ts)) h') =
        next_freq (policy_heap (snd (get_next_freq env st h ut mx tc)) h') \<and>
      last_freq_update_time (policy_heap (snd (get_next_freq_calls env
          (snd (get_next_freq env st h ut mx tc)) h ut mx ts)) h') =
        last_freq_update_time (policy_heap (snd (get_next_freq env st h ut mx tc)) h'))"
proof (intro conjI)
  show "cached_raw_freq (policy_heap st h) \<noteq> 0 \<and>
    fst (get_next_freq_select env st h ut mx) = cached_raw_freq (policy_heap st h) \<and>
    \<not> need_freq_update (policy_heap st h) \<longrightarrow>
      get_next_freq env st h ut mx time = (0, snd (get_next_freq_select env st h ut mx)) \<and>
      hw_calls (snd (get_next_freq env st h ut mx time)) = hw_calls st \<and>
      policy_heap (snd (get_next_freq env st h ut mx time)) = policy_heap st \<and>
      waltgov_update_freq_dispatch env (snd (get_next_freq env st h ut mx time)) h time
        (fst (get_next_freq env st h ut mx time)) = snd (get_next_freq env st h ut mx time)"
  proof
    assume a: "cached_raw_freq (policy_heap st h) \<noteq> 0 \<and>
      fst (get_next_freq_select env st h ut mx) = cached_raw_freq (policy_heap st h) \<and>
      \<not> need_freq_update (policy_heap st h)"
    then have g: "get_next_freq env st h ut mx time =
                    (0, snd (get_next_freq_select env st h ut mx))"
      by (intro get_next_freq_shortcircuit) simp_all
    then show "get_next_freq env st h ut mx time = (0, snd (get_next_freq_select env st h ut mx)) \<and>
      hw_calls (snd (get_next_freq env st h ut mx time)) = hw_calls st \<and>
      policy_heap (snd (get_next_freq env st h ut mx time)) = policy_heap st \<and>
      waltgov_update_freq_dispatch env (snd (get_next_freq env st h ut mx time)) h time
        (fst (get_next_freq env st h ut mx time)) = snd (get_next_freq env st h ut mx time)"
      by (simp add: select_keeps waltgov_update_freq_dispatch_def)
  qed
next
  show "fst (get_next_freq env st h ut mx tc) \<noteq> 0 \<and>
    same_selections h (fst (get_next_freq_select env st h ut mx))
      (policy_heap (snd (get_next_freq env st h ut mx tc)) h) cs \<longrightarrow>
      (\<forall>(env', st', ut', mx', t') \<in> set cs.
         fst (get_next_freq env' st' h ut' mx' t') = 0 \<and>
         next_freq (policy_heap (snd (get_next_freq env' st' h ut' mx' t')) h) =
           next_freq (policy_heap (snd (get_next_freq env st h ut mx tc)) h) \<and>
         last_freq_update_time (policy_heap (snd (get_next_freq env' st' h ut' mx' t')) h) =
           last_freq_update_time (policy_heap (snd (get_next_freq env st h ut mx tc)) h) \<and>
         waltgov_update_freq_dispatch env' (snd (get_next_freq env' st' h ut' mx' t')) h t'
           (fst (get_next_freq env' st' h ut' mx' t')) =
             snd (get_next_freq env' st' h ut' mx' t'))"
  proof
    assume a: "fst (get_next_freq env st h ut mx tc) \<noteq> 0 \<and>
      same_selections h (fst (get_next_freq_select env st h ut mx))
        (policy_heap (snd (get_next_freq env st h ut mx tc)) h) cs"
    from commit_caches [of env st h ut mx tc] a
    have n: "\<not> need_freq_update (policy_heap (snd (get_next_freq env st h ut mx tc)) h)"
      and c: "cached_raw_freq (policy_heap (snd (get_next_freq env st h ut mx tc)) h) =
                fst (get_next_freq_select env st h ut mx)"
      by simp_all
    from a have s: "same_selections h (fst (get_next_freq_select env st h ut mx))
        (policy_heap (snd (get_next_freq env st h ut mx tc)) h) cs"
      by simp
    from same_selections_run [OF n c s]
    show "\<forall>(env', st', ut', mx', t') \<in> set cs.
         fst (get_next_freq env' st' h ut' mx' t') = 0 \<and>
         next_freq (policy_heap (snd (get_next_freq env' st' h ut' mx' t')) h) =
           next_freq (policy_heap (snd (get_next_freq env st h ut mx tc)) h) \<and>
         last_freq_update_time (policy_heap (snd (get_next_freq env' st' h ut' mx' t')) h) =
           last_freq_update_time (policy_heap (snd (get_next_freq env st h ut mx tc)) h) \<and>
         waltgov_update_freq_dispatch env' (snd (get_next_freq env' st' h ut' mx' t')) h t'
           (fst (get_next_freq env' st' h ut' mx' t')) =
             snd (get_next_freq env' st' h ut' mx' t')"
      by (auto simp: waltgov_update_freq_dispatch_def)
  qed
next
  show "policy (policy_heap sta h) = policy (policy_heap st h) \<and>
    tunables_of sta (policy_heap sta h) = tunables_of st (policy_heap st h) \<and>
    cpu_util_rt enva (cpu (per_cpu sta (driving_cpu (policy_heap sta h)))) =
      cpu_util_rt env (cpu (per_cpu st (driving_cpu (policy_heap st h)))) \<longrightarrow>
      fst (get_next_freq_select enva sta h ut mx) = fst (get_next_freq_select env st h ut mx)"
    by (auto intro: select_freq_same)
next
  show "fst (get_next_freq env st h ut mx tc) \<noteq> 0 \<longrightarrow>
      (\<forall>f \<in> set (fst (get_next_freq_calls env (snd (get_next_freq env st h ut mx tc))
                         h ut mx ts)). f = 0) \<and>
      next_freq (policy_heap (snd (get_next_freq_calls env
          (snd (get_next_freq env st h ut mx tc)) h ut mx ts)) h') =
        next_freq (policy_heap (snd (get_next_freq env st h ut mx tc)) h') \<and>
      last_freq_update_time (policy_heap (snd (get_next_freq_calls env
          (snd (get_next_freq env st h ut mx tc)) h ut mx ts)) h') =
        last_freq_update_time (policy_heap (snd (get_next_freq env st h ut mx tc)) h')"
  proof
    assume "fst (get_next_freq env st h ut mx tc) \<noteq> 0"
    then have s: "settled env (snd (get_next_freq env st h ut mx tc)) h ut mx"
      by (rule settled_after_commit)
    from settled_calls [OF s, of ts h']
    show "(\<forall>f \<in> set (fst (get_next_freq_calls env (snd (get_next_freq env st h ut mx tc))
                         h ut mx ts)). f = 0) \<and>
      next_freq (policy_heap (snd (get_next_freq_calls env
          (snd (get_next_freq env st h ut mx tc)) h ut mx ts)) h') =
        next_freq (policy_heap (snd (get_next_freq env st h ut mx tc)) h') \<and>
      last_freq_update_time (policy_heap (snd (get_next_freq_calls env
          (snd (get_next_freq env st h ut mx tc)) h ut mx ts)) h') =
        last_freq_update_time (policy_heap (snd (get_next_freq env st h ut mx tc)) h')"
      by blast
  qed
qed

lemmas select_eval = get_next_freq_select_def walt_map_util_freq_def tunables_of_def
  get_adaptive_low_freq_def get_adaptive_high_freq_def sample_defs

lemmas commit_eval = get_next_freq_unfold get_next_freq_commit_def waltgov_update_next_freq_def
  waltgov_up_down_rate_limit_def set_policy_def

theorem C3_noop_shortcircuit_witness:
  "get_next_freq sample_env (cached_state 300000) 0 120 1000 7 = (0, cached_state 300000) \<and>
   fst (get_next_freq sample_env sample_state 0 900 1024 1000000) = 2000000 \<and>
   fst (get_next_freq sample_env committed_state 0 900 1024 1000001) = 0 \<and>
   fst (get_next_freq rt_env busy_state 0 900 1024 50000000) = 0 \<and>
   next_freq (policy_heap (snd (get_next_freq rt_env busy_state 0 900 1024 50000000)) 0) =
     2000000 \<and>
   fst (get_next_freq_calls sample_env committed_state 0 900 1024
          [1000001, 2000000, 50000000]) = [0, 0, 0]"
proof -
  have s: "get_next_freq_select sample_env (cached_state 300000) 0 120 1000 =
             (300000, cached_state 300000)"
    by (simp add: select_eval cached_state_def)
  have c: "cached_raw_freq (policy_heap (cached_state 300000) 0) = 300000"
    "\<not> need_freq_update (policy_heap (cached_state 300000) 0)"
    by (simp_all add: cached_state_def sample_defs)
  note T = C3_noop_shortcircuit [where env = sample_env and h = 0 and h' = 0 and enva = sample_env]
  have 1: "get_next_freq sample_env (cached_state 300000) 0 120 1000 7 =
             (0, cached_state 300000)"
    using T [where st = "cached_state 300000" and ut = 120 and mx = 1000 and time = 7
        and ts = "[]" and cs = "[]" and sta = "cached_state 300000" and tc = 0,
        THEN conjunct1]
    by (simp add: s c)
  have 2: "fst (get_next_freq sample_env sample_state 0 900 1024 1000000) = 2000000"
    by (simp add: select_eval commit_eval)
  have nf: "next_freq (policy_heap committed_state 0) = 2000000"
    by (simp add: committed_state_def select_eval commit_eval)
  have ss: "same_selections 0 (fst (get_next_freq_select sample_env sample_state 0 900 1024))
      (policy_heap (snd (get_next_freq sample_env sample_state 0 900 1024 1000000)) 0)
      [(sample_env, committed_state, 900, 1024, 1000001),
       (rt_env, busy_state, 900, 1024, 50000000)]"
    by (simp add: commit_fields_def committed_state_def busy_state_def rt_env_def
        select_eval commit_eval)
  have 3: "fst (get_next_freq sample_env committed_state 0 900 1024 1000001) = 0 \<and>
     fst (get_next_freq rt_env busy_state 0 900 1024 50000000) = 0 \<and>
     next_freq (policy_heap (snd (get_next_freq rt_env busy_state 0 900 1024 50000000)) 0) =
       2000000"
    using T [where st = sample_state and ut = 900 and mx = 1024 and tc = 1000000
        and cs = "[(sample_env, committed_state, 900, 1024, 1000001),
                   (rt_env, busy_state, 900, 1024, 50000000)]"
        and ts = "[]" and sta = sample_state and time = 0,
        THEN conjunct2, THEN conjunct1] 2 ss nf
    by (simp add: committed_state_def [symmetric])
  let ?L = "fst (get_next_freq_calls sample_env committed_state 0 900 1024
          [1000001, 2000000, 50000000])"
  have "\<forall>f \<in> set ?L. f = 0"
    using T [where st = sample_state and ut = 900 and mx = 1024 and tc = 1000000
        and ts = "[1000001, 2000000, 50000000]" and cs = "[]" and sta = sample_state
        and time = 0, THEN conjunct2, THEN conjunct2, THEN conjunct2] 2
    by (simp add: committed_state_def [symmetric])
  then have "?L = replicate (length ?L) 0"
    by (rule all_zero_replicate)
  then have 4: "?L = [0, 0, 0]"
    by (simp only: length_get_next_freq_calls) (simp add: numeral_3_eq_3)
  from 1 2 3 4 show ?thesis by simp
qed

text \<open>
  C3 as stated fails for the cached value 0, which the code treats as "nothing
  cached": on an idle domain the raw frequency is 0 and equals \<open>cached_raw_freq = 0\<close>
  with \<open>need_freq_update\<close> clear, yet the selector asks the driver to resolve 0, commits
  the resolved 300000 over the former 1000000 and returns it.

  Constant utilization and capacity do not keep the raw frequency constant either: it
  also depends on the real-time utilization of the driving CPU. With utilization 400 of
  capacity 1024 the selector commits 830078 while CPU 0 drives the domain, and with the
  same 400 of 1024 it commits 976562 once the driving CPU is CPU 1, whose real-time
  utilization 300 is not below a quarter of the capacity.
\<close>

theorem C3_counterexample:
  "cached_raw_freq (policy_heap sample_state 0) = 0 \<and>
   fst (get_next_freq_select sample_env sample_state 0 0 1024) =
     cached_raw_freq (policy_heap sample_state 0) \<and>
   \<not> need_freq_update (policy_heap sample_state 0) \<and>
   next_freq (policy_heap sample_state 0) = 1000000 \<and>
   fst (get_next_freq sample_env sample_state 0 0 1024 100000000) = 300000 \<and>
   next_freq (policy_heap (snd (get_next_freq sample_env sample_state 0 0 1024 100000000)) 0)
     = 300000 \<and>
   last_freq_update_time
     (policy_heap (snd (get_next_freq sample_env sample_state 0 0 1024 100000000)) 0)
     = 100000000 \<and>
   hw_calls (snd (get_next_freq sample_env sample_state 0 0 1024 100000000)) = [Resolve_freq 0] \<and>
   fst (get_next_freq rt_env thresh_state 0 400 1024 100000000) = 830078 \<and>
   fst (get_next_freq rt_env
          (set_driving_cpu (snd (get_next_freq rt_env thresh_state 0 400 1024 100000000)) 0 1)
          0 400 1024 200000000) = 976562 \<and>
   next_freq (policy_heap (snd (get_next_freq rt_env
          (set_driving_cpu (snd (get_next_freq rt_env thresh_state 0 400 1024 100000000)) 0 1)
          0 400 1024 200000000)) 0) = 976562"
  by (simp add: select_eval commit_eval rt_env_def thresh_state_def set_driving_cpu_def)

subsection \<open>Rate limiting of the commit\<close>

lemma rate_limited_change_same:
  "next_freq wg' = next_freq wg \<Longrightarrow> rate_limited_change time wg wg'"
  by (simp add: rate_limited_change_def)

lemma rate_limited_change_cong:
  "rate_fields a' = rate_fields a \<Longrightarrow> next_freq b' = next_freq b \<Longrightarrow>
     rate_limited_change time a' b' = rate_limited_change time a b"
  by (simp add: rate_limited_change_def rate_fields_def)

lemma update_next_freq_rate:
  assumes "\<not> (OPLUS_FEATURE_FRAME_BOOST env \<and>
               flags_wp wg AND SCHED_CPUFREQ_DEF_FRAMEBOOST env \<noteq> 0)"
  shows "rate_limited_change time wg (snd (waltgov_update_next_freq env wg time nf raw))"
  using assms
  by (auto simp: rate_limited_change_def waltgov_update_next_freq_def
      waltgov_up_down_rate_limit_def Let_def)

lemma commit_rate:
  assumes "\<not> (OPLUS_FEATURE_FRAME_BOOST env \<and>
               flags_wp (policy_heap st h) AND SCHED_CPUFREQ_DEF_FRAMEBOOST env \<noteq> 0)"
  shows "rate_limited_change time (policy_heap st h')
           (policy_heap (snd (get_next_freq_commit env st h freq time)) h')"
proof (cases "h' = h")
  case False
  then show ?thesis
    by (simp add: get_next_freq_commit_def Let_def set_policy_def split_def
        rate_limited_change_same)
next
  case True
  let ?wg1 = "(policy_heap st h)\<lparr>need_freq_update := False\<rparr>"
  have f: "\<not> (OPLUS_FEATURE_FRAME_BOOST env \<and>
               flags_wp ?wg1 AND SCHED_CPUFREQ_DEF_FRAMEBOOST env \<noteq> 0)"
    using assms by simp
  have r: "rate_limited_change time ?wg1 (snd (waltgov_update_next_freq env ?wg1 time nf raw))"
    for nf raw
    by (rule update_next_freq_rate [OF f])
  have c: "rate_limited_change time ?wg1 b = rate_limited_change time (policy_heap st h) b" for b
    by (rule rate_limited_change_cong) (simp_all add: rate_fields_def)
  show ?thesis
    using r c
    by (simp add: True get_next_freq_commit_def Let_def set_policy_def split_def
        rate_limited_change_same)
qed

lemma get_next_freq_rate:
  assumes "\<not> (OPLUS_FEATURE_FRAME_BOOST env \<and>
               flags_wp (policy_heap st h) AND SCHED_CPUFREQ_DEF_FRAMEBOOST env \<noteq> 0)"
  shows "rate_limited_change time (policy_heap st h')
           (policy_heap (snd (get_next_freq env st h ut mx time)) h')"
  using commit_rate [of env "snd (get_next_freq_select env st h ut mx)" h time h'
      "fst (get_next_freq_select env st h ut mx)"] assms
  by (simp add: get_next_freq_unfold select_keeps)

lemma bookkeeping_only_rate_fields:
  "bookkeeping_only st st' \<Longrightarrow> rate_fields (policy_heap st' h) = rate_fields (policy_heap st h)"
  using policy_core_fields [of "policy_heap st' h" "policy_heap st h"]
  by (simp add: bookkeeping_only_def rate_fields_def)

lemma bookkeeping_only_flags:
  "bookkeeping_only st st' \<Longrightarrow> flags_wp (policy_heap st' h) = flags_wp (policy_heap st h)"
  using policy_core_fields [of "policy_heap st' h" "policy_heap st h"]
  by (simp add: bookkeeping_only_def)

lemma next_freq_shared_rate:
  assumes "\<not> (OPLUS_FEATURE_FRAME_BOOST env \<and>
               flags_wp (policy_heap st (wg_policy (per_cpu st c))) AND
                 SCHED_CPUFREQ_DEF_FRAMEBOOST env \<noteq> 0)"
  shows "rate_limited_change time (policy_heap st h')
           (policy_heap (snd (waltgov_next_freq_shared env st c time)) h')"
proof -
  let ?h = "wg_policy (per_cpu st c)"
  obtain ut mx st1 where a: "next_freq_shared_aggregate env st c = (ut, mx, st1)"
    by (metis prod_cases3)
  have b: "bookkeeping_only st st1"
    using bookkeeping_only_aggregate [of st env c] by (simp add: a)
  have f: "\<not> (OPLUS_FEATURE_FRAME_BOOST env \<and>
               flags_wp (policy_heap st1 ?h) AND SCHED_CPUFREQ_DEF_FRAMEBOOST env \<noteq> 0)"
    using assms by (simp add: bookkeeping_only_flags [OF b])
  have "rate_limited_change time (policy_heap st1 h')
           (policy_heap (snd (get_next_freq env st1 ?h ut mx time)) h')"
    by (rule get_next_freq_rate [OF f])
  then have "rate_limited_change time (policy_heap st h')
           (policy_heap (snd (get_next_freq env st1 ?h ut mx time)) h')"
    using rate_limited_change_cong [OF bookkeeping_only_rate_fields [OF b, of h'] refl]
    by simp
  then show ?thesis
    by (simp add: waltgov_next_freq_shared_def a Let_def)
qed

lemma dispatch_rate_fields:
  "next_freq (policy_heap (waltgov_update_freq_dispatch env st h time nf) h') =
     next_freq (policy_heap st h')"
  by (simp add: waltgov_update_freq_dispatch_def waltgov_fast_switch_def
      waltgov_deferred_update_def waltgov_track_cycles_def set_policy_def Let_def)

lemma calc_avg_cap_rate_fields:
  "waltgov_calc_avg_cap env wg curr_ws f = Inr wg' \<Longrightarrow>
     rate_fields wg' = rate_fields wg \<and> flags_wp wg' = flags_wp wg"
  by (auto simp: waltgov_calc_avg_cap_def calc_avg_freq_def waltgov_track_cycles_def Let_def
      rate_fields_def split: if_splits)

lemma should_update_rate_fields:
  "rate_fields (snd (waltgov_should_update_freq env wg time)) = rate_fields wg \<and>
   flags_wp (snd (waltgov_should_update_freq env wg time)) = flags_wp wg"
  by (simp add: waltgov_should_update_freq_def rate_fields_def Let_def)

lemma sample_rate_fields:
  "rate_fields (snd (waltgov_update_freq_sample env st c flags smp)) =
     rate_fields (policy_heap st (wg_policy (per_cpu st c))) \<and>
   flags_wp (snd (waltgov_update_freq_sample env st c flags smp)) =
     (if OPLUS_FEATURE_FRAME_BOOST env then flags
      else flags_wp (policy_heap st (wg_policy (per_cpu st c)))) \<and>
   policy_heap (fst (waltgov_update_freq_sample env st c flags smp)) = policy_heap st \<and>
   wg_policy (per_cpu (fst (waltgov_update_freq_sample env st c flags smp)) c) =
     wg_policy (per_cpu st c)"
  by (simp add: waltgov_update_freq_sample_def waltgov_get_util_def Let_def rate_fields_def)

lemma prepare_rate_fields:
  assumes "waltgov_update_freq_prepare env st c time flags smp = Inr (go, st5)"
  shows "rate_fields (policy_heap st5 h') = rate_fields (policy_heap st h') \<and>
         wg_policy (per_cpu st5 c) = wg_policy (per_cpu st c) \<and>
         flags_wp (policy_heap st5 (wg_policy (per_cpu st c))) =
           (if OPLUS_FEATURE_FRAME_BOOST env then flags
            else flags_wp (policy_heap st (wg_policy (per_cpu st c))))"
proof -
  let ?h = "wg_policy (per_cpu st c)"
  obtain st2 wg3 where sm: "waltgov_update_freq_sample env st c flags smp = (st2, wg3)"
    by (cases "waltgov_update_freq_sample env st c flags smp")
  from sample_rate_fields [of env st c flags smp]
  have w3: "rate_fields wg3 = rate_fields (policy_heap st ?h)"
    "flags_wp wg3 = (if OPLUS_FEATURE_FRAME_BOOST env then flags
                     else flags_wp (policy_heap st ?h))"
    "policy_heap st2 = policy_heap st" "wg_policy (per_cpu st2 c) = ?h"
    by (simp_all add: sm)
  from assms obtain wg4 where
    c: "waltgov_calc_avg_cap env wg3 (ws (walt_load (per_cpu st2 c))) (cur (policy wg3)) =
          Inr wg4"
    and s: "st5 = set_policy st2 ?h (snd (waltgov_should_update_freq env wg4 time))"
    by (auto simp: waltgov_update_freq_prepare_def sm Let_def split_def split: sum.splits)
  from calc_avg_cap_rate_fields [OF c] should_update_rate_fields [of env wg4 time] w3
  have w5: "rate_fields (snd (waltgov_should_update_freq env wg4 time)) =
              rate_fields (policy_heap st ?h)"
    "flags_wp (snd (waltgov_should_update_freq env wg4 time)) =
              (if OPLUS_FEATURE_FRAME_BOOST env then flags else flags_wp (policy_heap st ?h))"
    by simp_all
  show ?thesis
    using w5 w3 by (simp add: s set_policy_def)
qed

text \<open>
  C1 (as amended). In every invocation of \<open>waltgov_update_freq\<close> that returns, and for
  every domain, the committed \<open>next_freq\<close> is raised only when the time since the last
  commit is at least \<open>up_rate_delay_ns\<close> and lowered only when it is at least
  \<open>down_rate_delay_ns\<close>, whether or not \<open>limits_changed\<close> is set; the one exemption is
  an event carrying the frame-boost flag in a \<open>CONFIG_OPLUS_FEATURE_FRAME_BOOST\<close> build.
\<close>

theorem C1_rate_limited_commit:
  assumes run: "waltgov_update_freq env st c time flags smp = Inr st'"
    and nfb: "\<not> (OPLUS_FEATURE_FRAME_BOOST env \<and>
                  flags AND SCHED_CPUFREQ_DEF_FRAMEBOOST env \<noteq> 0)"
  shows "rate_limited_change time (policy_heap st h) (policy_heap st' h)"
proof (cases "\<not> pl (tunables_of st (policy_heap st (wg_policy (per_cpu st c)))) \<and>
              flags AND WALT_CPUFREQ_PL env \<noteq> 0")
  case True
  with run have "st' = st"
    by (simp add: waltgov_update_freq_def Let_def)
  then show ?thesis by (simp add: rate_limited_change_same)
next
  case False
  let ?h = "wg_policy (per_cpu st c)"
  from run False obtain go st5 where
    p: "waltgov_update_freq_prepare env st c time flags smp = Inr (go, st5)"
    and r: "st' = (if go then waltgov_update_freq_dispatch env
                     (snd (waltgov_next_freq_shared env st5 c time)) ?h time
                     (fst (waltgov_next_freq_shared env st5 c time))
                   else st5)"
    by (auto simp: waltgov_update_freq_def Let_def split_def split: sum.splits if_splits)
  note f = prepare_rate_fields [OF p]
  have q: "rate_limited_change time (policy_heap st h) b =
           rate_limited_change time (policy_heap st5 h) b" for b
    by (rule rate_limited_change_cong [symmetric]) (simp_all add: f)
  show ?thesis
  proof (cases go)
    case False
    then show ?thesis
      using f [of h] by (simp add: r rate_limited_change_def rate_fields_def)
  next
    case True
    have nf: "\<not> (OPLUS_FEATURE_FRAME_BOOST env \<and>
               flags_wp (policy_heap st5 (wg_policy (per_cpu st5 c))) AND
                 SCHED_CPUFREQ_DEF_FRAMEBOOST env \<noteq> 0)"
      using nfb f [of h] by auto
    have "rate_limited_change time (policy_heap st5 h)
           (policy_heap (snd (waltgov_next_freq_shared env st5 c time)) h)"
      by (rule next_freq_shared_rate [OF nf])
    then have "rate_limited_change time (policy_heap st5 h) (policy_heap st' h)"
      by (simp add: r True rate_limited_change_def dispatch_rate_fields)
    then show ?thesis by (simp add: q)
  qed
qed

lemmas update_eval = waltgov_update_freq_def waltgov_update_freq_prepare_def
  waltgov_update_freq_sample_def waltgov_get_util_def waltgov_calc_avg_cap_def
  waltgov_should_update_freq_def waltgov_next_freq_shared_def next_freq_shared_aggregate_def
  next_freq_shared_step_def next_freq_shared_pick_def walt_adjust_outcome override_outcome_def
  override_rules_def rule_step_def newtask_rule_def with_overrides_def
  waltgov_update_freq_dispatch_def waltgov_fast_switch_def waltgov_track_cycles_def
  mult_frac_def NL_RATIO_def TARGET_LOAD_def NSEC_PER_KHZ_def sample_smp_def Let_def

theorem C1_rate_limited_commit_witness:
  "\<exists>st'. waltgov_update_freq sample_env sample_state 0 1000000 0 sample_smp = Inr st' \<and>
         next_freq (policy_heap sample_state 0) = 1000000 \<and>
         next_freq (policy_heap st' 0) = 2000000 \<and>
         sint (up_rate_delay_ns (policy_heap sample_state 0))
           \<le> sint (1000000 - last_freq_update_time (policy_heap sample_state 0))"
proof -
  obtain st' where run: "waltgov_update_freq sample_env sample_state 0 1000000 0 sample_smp =
      Inr st'" and n': "next_freq (policy_heap st' 0) = 2000000"
    by (simp add: update_eval select_eval commit_eval)
  have nfb: "\<not> (OPLUS_FEATURE_FRAME_BOOST sample_env \<and>
                 0 AND SCHED_CPUFREQ_DEF_FRAMEBOOST sample_env \<noteq> 0)"
    by (simp add: sample_env_def)
  have n: "next_freq (policy_heap sample_state 0) = 1000000"
    by (simp add: sample_defs)
  from C1_rate_limited_commit [OF run nfb, of 0]
  have "sint (up_rate_delay_ns (policy_heap sample_state 0))
           \<le> sint (1000000 - last_freq_update_time (policy_heap sample_state 0))"
    by (simp add: rate_limited_change_def n n')
  with run n n' show ?thesis by blast
qed

text \<open>
  C1 as stated fails twice. With \<open>limits_changed\<close> set the per-direction limit still
  applies: 1000 ns after the last commit the raise from 1000000 to the resolved 2000000
  is rejected, although the claim exempts this case from the rate limit. And in a
  frame-boost build an event with the frame-boost flag raises \<open>next_freq\<close> to 2000000
  after the same 1000 ns with \<open>limits_changed\<close> clear.
\<close>

theorem C1_counterexample:
  "(\<exists>st'. waltgov_update_freq sample_env limits_state 0 1000 0 sample_smp = Inr st' \<and>
          limits_changed (policy_heap limits_state 0) \<and>
          sint (1000 - last_freq_update_time (policy_heap limits_state 0))
            < sint (up_rate_delay_ns (policy_heap limits_state 0)) \<and>
          next_freq (policy_heap limits_state 0) = 1000000 \<and>
          next_freq (policy_heap st' 0) = 1000000 \<and>
          hw_calls st' = [Resolve_freq 2197265]) \<and>
   (\<exists>st'. waltgov_update_freq (sample_env\<lparr>OPLUS_FEATURE_FRAME_BOOST := True\<rparr>) sample_state 0
            1000 (SCHED_CPUFREQ_DEF_FRAMEBOOST sample_env) sample_smp = Inr st' \<and>
          \<not> limits_changed (policy_heap sample_state 0) \<and>
          sint (1000 - last_freq_update_time (policy_heap sample_state 0))
            < sint (up_rate_delay_ns (policy_heap sample_state 0)) \<and>
          next_freq (policy_heap sample_state 0) = 1000000 \<and>
          next_freq (policy_heap st' 0) = 2000000 \<and>
          hw_calls st' = [Resolve_freq 2197265, Fast_switch 2000000])"
  by (simp add: update_eval select_eval commit_eval limits_state_def)

end
